theory Spec2Isabelle
  imports Main Complex_Main
begin

section \<open>Strings of the source language\<close>

text \<open>
  A JavaScript string is a sequence of UTF-16 code units. A \<^typ>\<open>char\<close> stands for one
  code unit in the range 0..255 (ASCII and Latin-1), so \<^const>\<open>length\<close> is the source's
  \<^verbatim>\<open>.length\<close>, \<^const>\<open>take\<close> and \<^const>\<open>drop\<close> are \<^verbatim>\<open>substring(0, n)\<close> and
  \<^verbatim>\<open>slice(n)\<close>. Text with code units above 255 is outside the model.
\<close>

definition in_range :: "char \<Rightarrow> char \<Rightarrow> char \<Rightarrow> bool" where
  "in_range lo hi c \<longleftrightarrow> (of_char lo :: int) \<le> of_char c \<and> (of_char c :: int) \<le> of_char hi"

text \<open>White space and line terminators of ECMAScript (\<^verbatim>\<open>\s\<close> and \<^verbatim>\<open>trim\<close>) below 256:
  TAB, LF, VT, FF, CR, SPACE and NO-BREAK SPACE.\<close>

definition is_ws :: "char \<Rightarrow> bool" where
  "is_ws c \<longleftrightarrow> c \<in> set [CHR 0x09, CHR 0x0A, CHR 0x0B, CHR 0x0C, CHR 0x0D, CHR '' '', CHR 0xA0]"

text \<open>The word characters of \<^verbatim>\<open>\w\<close>: \<^verbatim>\<open>[A-Za-z0-9_]\<close>.\<close>

definition is_word :: "char \<Rightarrow> bool" where
  "is_word c \<longleftrightarrow> in_range CHR ''a'' CHR ''z'' c \<or> in_range CHR ''A'' CHR ''Z'' c
     \<or> in_range CHR ''0'' CHR ''9'' c \<or> c = CHR ''_''"

text \<open>\<^verbatim>\<open>toLowerCase\<close> and \<^verbatim>\<open>toUpperCase\<close> on one code unit. Below 256 the letters with a
  partner below 256 are A-Z and the Latin-1 letters 0xC0-0xDE without the multiplication
  sign 0xD7. The upper-case forms of 0xB5, 0xDF and 0xFF lie outside the range, and no other
  code unit of the range shares them: \<open>upper_char\<close> leaves these three as they are, which is
  what the case-insensitive comparison of the expressions needs; the source applies
  \<^verbatim>\<open>toUpperCase\<close> itself to the letters a-z only.\<close>

definition lower_char :: "char \<Rightarrow> char" where
  "lower_char c = (if in_range CHR ''A'' CHR ''Z'' c \<or> (in_range (CHR 0xC0) (CHR 0xDE) c \<and> c \<noteq> CHR 0xD7)
     then char_of (of_char c + (32::int)) else c)"

definition upper_char :: "char \<Rightarrow> char" where
  "upper_char c = (if in_range CHR ''a'' CHR ''z'' c \<or> (in_range (CHR 0xE0) (CHR 0xFE) c \<and> c \<noteq> CHR 0xF7)
     then char_of (of_char c - (32::int)) else c)"

definition toLowerCase :: "string \<Rightarrow> string" where
  "toLowerCase s = map lower_char s"

definition toUpperCase :: "string \<Rightarrow> string" where
  "toUpperCase s = map upper_char s"

definition trim :: "string \<Rightarrow> string" where
  "trim s = rev (dropWhile is_ws (rev (dropWhile is_ws s)))"

text \<open>\<^verbatim>\<open>s.startsWith(p)\<close>, \<^verbatim>\<open>s.includes(p)\<close> and \<^verbatim>\<open>xs.join(sep)\<close>.\<close>

fun startsWith :: "string \<Rightarrow> string \<Rightarrow> bool" where
  "startsWith s [] = True"
| "startsWith [] (p # ps) = False"
| "startsWith (c # cs) (p # ps) = (c = p \<and> startsWith cs ps)"

fun str_includes :: "string \<Rightarrow> string \<Rightarrow> bool" where
  "str_includes [] p = (p = [])"
| "str_includes (c # cs) p = (startsWith (c # cs) p \<or> str_includes cs p)"

fun join :: "string \<Rightarrow> string list \<Rightarrow> string" where
  "join sep [] = []"
| "join sep [x] = x"
| "join sep (x # y # ys) = x @ sep @ join sep (y # ys)"

section \<open>Regular expressions\<close>

text \<open>
  The expressions of the source are written as terms of \<open>rx\<close>. \<open>matches ic r st\<close> lists the
  states in which a match of \<open>r\<close> that starts in \<open>st\<close> can end, in the order in which the
  backtracking matcher of ECMAScript tries them: alternatives left to right, \<^verbatim>\<open>*\<close> greedy
  (one more iteration before none), \<^verbatim>\<open>*?\<close> lazy, an iteration of a star that consumes
  nothing rejected. The match that the engine reports is the first of the list. No expression
  of the source has a capture group under a quantifier, so captures are not reset between
  iterations.
\<close>

datatype cset = CChar char | CRange char char | CSpace | CWord

fun in_cset :: "char \<Rightarrow> cset \<Rightarrow> bool" where
  "in_cset c (CChar d) = (c = d)"
| "in_cset c (CRange lo hi) = in_range lo hi c"
| "in_cset c CSpace = is_ws c"
| "in_cset c CWord = is_word c"

text \<open>Under the \<^verbatim>\<open>i\<close> flag two code units match when their canonical (upper-case) forms
  agree; a class matches a code unit when it holds a member with the same canonical form.\<close>

definition cset_match :: "bool \<Rightarrow> cset list \<Rightarrow> char \<Rightarrow> bool" where
  "cset_match ic cs c =
     (if ic then list_ex (\<lambda>d. list_ex (in_cset d) cs) [c, upper_char c, lower_char c]
      else list_ex (in_cset c) cs)"

definition char_match :: "bool \<Rightarrow> char \<Rightarrow> char \<Rightarrow> bool" where
  "char_match ic p c = (if ic then upper_char p = upper_char c else p = c)"

datatype rx =
    RChar char
  | RSet "cset list"
  | RNotSet "cset list"
  | RSeq rx rx
  | RAlt rx rx
  | RStar rx
  | RLazyStar rx
  | RGroup nat rx
  | RBackref nat
  | RBol
  | REol
  | RWordB
  | REmpty

text \<open>A matcher state: the text before the current position (reversed), the text from the
  current position on, and the captures made so far.\<close>

datatype mstate = MState (before: string) (rest: string) (caps: "(nat \<times> string) list")

definition advance :: "nat \<Rightarrow> mstate \<Rightarrow> mstate" where
  "advance n st = MState (rev (take n (rest st)) @ before st) (drop n (rest st)) (caps st)"

definition consumed :: "mstate \<Rightarrow> mstate \<Rightarrow> string" where
  "consumed st st' = take (length (rest st) - length (rest st')) (rest st)"

definition set_cap :: "nat \<Rightarrow> string \<Rightarrow> mstate \<Rightarrow> mstate" where
  "set_cap n w st = MState (before st) (rest st) ((n, w) # filter (\<lambda>p. fst p \<noteq> n) (caps st))"

definition at_word_boundary :: "mstate \<Rightarrow> bool" where
  "at_word_boundary st \<longleftrightarrow>
     (case before st of [] \<Rightarrow> False | b # _ \<Rightarrow> is_word b) \<noteq> (case rest st of [] \<Rightarrow> False | c # _ \<Rightarrow> is_word c)"

function matches :: "bool \<Rightarrow> rx \<Rightarrow> mstate \<Rightarrow> mstate list" where
  "matches ic (RChar p) st =
     (case rest st of [] \<Rightarrow> [] | c # _ \<Rightarrow> if char_match ic p c then [advance 1 st] else [])"
| "matches ic (RSet cs) st =
     (case rest st of [] \<Rightarrow> [] | c # _ \<Rightarrow> if cset_match ic cs c then [advance 1 st] else [])"
| "matches ic (RNotSet cs) st =
     (case rest st of [] \<Rightarrow> [] | c # _ \<Rightarrow> if cset_match ic cs c then [] else [advance 1 st])"
| "matches ic (RSeq a b) st = concat (map (matches ic b) (matches ic a st))"
| "matches ic (RAlt a b) st = matches ic a st @ matches ic b st"
| "matches ic (RStar r) st =
     concat (map (\<lambda>st'. if length (rest st') < length (rest st) then matches ic (RStar r) st' else [])
                 (matches ic r st)) @ [st]"
| "matches ic (RLazyStar r) st =
     st # concat (map (\<lambda>st'. if length (rest st') < length (rest st) then matches ic (RLazyStar r) st' else [])
                      (matches ic r st))"
| "matches ic (RGroup n r) st = map (\<lambda>st'. set_cap n (consumed st st') st') (matches ic r st)"
| "matches ic (RBackref n) st =
     (case map_of (caps st) n of None \<Rightarrow> [st]
      | Some w \<Rightarrow>
          if length w \<le> length (rest st) \<and> list_all2 (char_match ic) w (take (length w) (rest st))
          then [advance (length w) st] else [])"
| "matches ic RBol st = (if before st = [] then [st] else [])"
| "matches ic REol st = (if rest st = [] then [st] else [])"
| "matches ic RWordB st = (if at_word_boundary st then [st] else [])"
| "matches ic REmpty st = [st]"
  by pat_completeness auto
termination
  by (relation "inv_image (less_than <*lex*> less_than) (\<lambda>(ic, r, st). (size r, length (rest st)))")
     auto

text \<open>Derived forms: a literal word, \<^verbatim>\<open>r+\<close>, \<^verbatim>\<open>r{2,}\<close>, \<^verbatim>\<open>r{3,}\<close>, a choice of several.\<close>

fun RStr :: "string \<Rightarrow> rx" where
  "RStr [] = REmpty"
| "RStr [c] = RChar c"
| "RStr (c # cs) = RSeq (RChar c) (RStr cs)"

definition RPlus :: "rx \<Rightarrow> rx" where
  "RPlus r = RSeq r (RStar r)"

definition RAtLeast2 :: "rx \<Rightarrow> rx" where
  "RAtLeast2 r = RSeq r (RSeq r (RStar r))"

definition RAtLeast3 :: "rx \<Rightarrow> rx" where
  "RAtLeast3 r = RSeq r (RSeq r (RSeq r (RStar r)))"

fun RAlts :: "rx list \<Rightarrow> rx" where
  "RAlts [] = REmpty"
| "RAlts [r] = r"
| "RAlts (r # rs) = RAlt r (RAlts rs)"

definition RWords :: "string list \<Rightarrow> rx" where
  "RWords words = RAlts (map RStr words)"

text \<open>One attempt at the current position, and the leftmost attempt that succeeds
  (\<^verbatim>\<open>RegExp.prototype.exec\<close> from a given index).\<close>

definition match_at :: "bool \<Rightarrow> rx \<Rightarrow> string \<Rightarrow> string \<Rightarrow> mstate option" where
  "match_at ic r bef rst = (case matches ic r (MState bef rst []) of [] \<Rightarrow> None | st # _ \<Rightarrow> Some st)"

fun re_search :: "bool \<Rightarrow> rx \<Rightarrow> string \<Rightarrow> string \<Rightarrow> (mstate \<times> mstate) option" where
  "re_search ic r bef [] =
     (case match_at ic r bef [] of Some st \<Rightarrow> Some (MState bef [] [], st) | None \<Rightarrow> None)"
| "re_search ic r bef (c # cs) =
     (case match_at ic r bef (c # cs) of Some st \<Rightarrow> Some (MState bef (c # cs) [], st)
      | None \<Rightarrow> re_search ic r (c # bef) cs)"

definition re_test :: "bool \<Rightarrow> rx \<Rightarrow> string \<Rightarrow> bool" where
  "re_test ic r s \<longleftrightarrow> re_search ic r [] s \<noteq> None"

definition group :: "nat \<Rightarrow> mstate \<Rightarrow> string" where
  "group n st = (case map_of (caps st) n of None \<Rightarrow> [] | Some w \<Rightarrow> w)"

text \<open>\<^verbatim>\<open>s.replace(/r/g, f)\<close>: every match, left to right and without overlap, is replaced by
  what \<open>f\<close> gives for the state at the start and at the end of the match; after an empty
  match the next code unit is copied and the search goes on behind it.\<close>

function re_replace_all :: "bool \<Rightarrow> rx \<Rightarrow> (mstate \<Rightarrow> mstate \<Rightarrow> string) \<Rightarrow> string \<Rightarrow> string \<Rightarrow> string" where
  "re_replace_all ic r f bef rst =
     (case match_at ic r bef rst of
        None \<Rightarrow> (case rst of [] \<Rightarrow> [] | c # cs \<Rightarrow> c # re_replace_all ic r f (c # bef) cs)
      | Some st \<Rightarrow>
          f (MState bef rst []) st @
          (if length (rest st) < length rst then re_replace_all ic r f (before st) (rest st)
           else (case rst of [] \<Rightarrow> [] | c # cs \<Rightarrow> c # re_replace_all ic r f (c # bef) cs)))"
  by pat_completeness auto
termination
  by (relation "measure (\<lambda>(ic, r, f, bef, rst). length rst)") auto

definition re_replace :: "bool \<Rightarrow> rx \<Rightarrow> (mstate \<Rightarrow> mstate \<Rightarrow> string) \<Rightarrow> string \<Rightarrow> string" where
  "re_replace ic r f s = re_replace_all ic r f [] s"

text \<open>Replacement patterns: a fixed text, \<^verbatim>\<open>$1\<close> and its like.\<close>

definition lit :: "string \<Rightarrow> mstate \<Rightarrow> mstate \<Rightarrow> string" where
  "lit w st st' = w"

definition grp :: "nat \<Rightarrow> mstate \<Rightarrow> mstate \<Rightarrow> string" where
  "grp n st st' = group n st'"

text \<open>\<^verbatim>\<open>s.match(/r/g)\<close>: the matched texts, left to right (the empty list for \<^verbatim>\<open>null\<close>).\<close>

function re_match_all :: "bool \<Rightarrow> rx \<Rightarrow> string \<Rightarrow> string \<Rightarrow> mstate list" where
  "re_match_all ic r bef rst =
     (case match_at ic r bef rst of
        None \<Rightarrow> (case rst of [] \<Rightarrow> [] | c # cs \<Rightarrow> re_match_all ic r (c # bef) cs)
      | Some st \<Rightarrow>
          st #
          (if length (rest st) < length rst then re_match_all ic r (before st) (rest st)
           else (case rst of [] \<Rightarrow> [] | c # cs \<Rightarrow> re_match_all ic r (c # bef) cs)))"
  by pat_completeness auto
termination
  by (relation "measure (\<lambda>(ic, r, bef, rst). length rst)") auto

text \<open>\<^verbatim>\<open>s.split(/r/)\<close>: the pieces between the matches, each match followed by the texts of
  its capture groups \<open>gs\<close>. A match is tried at every position \<open>q\<close> behind the start \<open>p\<close> of the
  current piece (\<open>cur\<close> is the piece so far, reversed); a match that ends at \<open>p\<close> is skipped.\<close>

function re_split_from :: "bool \<Rightarrow> rx \<Rightarrow> nat list \<Rightarrow> string \<Rightarrow> string \<Rightarrow> string \<Rightarrow> string list" where
  "re_split_from ic r gs bef rst cur =
     (case rst of
        [] \<Rightarrow> [rev cur]
      | c # cs \<Rightarrow>
          (case match_at ic r bef rst of
             None \<Rightarrow> re_split_from ic r gs (c # bef) cs (c # cur)
           | Some st \<Rightarrow>
               if length (rest st) < length rst
               then rev cur # map (\<lambda>n. group n st) gs @ re_split_from ic r gs (before st) (rest st) []
               else if cur = [] then re_split_from ic r gs (c # bef) cs (c # cur)
               else rev cur # map (\<lambda>n. group n st) gs @ re_split_from ic r gs (c # bef) cs [c]))"
  by pat_completeness auto
termination
  by (relation "measure (\<lambda>(ic, r, gs, bef, rst, cur). length rst)") auto

definition re_split :: "bool \<Rightarrow> rx \<Rightarrow> nat list \<Rightarrow> string \<Rightarrow> string list" where
  "re_split ic r gs s =
     (if s = [] then (if match_at ic r [] [] = None then [Nil] else [])
      else re_split_from ic r gs [] s [])"

fun RSeqs :: "rx list \<Rightarrow> rx" where
  "RSeqs [] = REmpty"
| "RSeqs [r] = r"
| "RSeqs (r # rs) = RSeq r (RSeqs rs)"

definition chars :: "string \<Rightarrow> rx" where
  "chars s = RSet (map CChar s)"

definition rx_space :: rx where
  "rx_space = RSet [CSpace]"

definition rx_word :: rx where
  "rx_word = RSet [CWord]"

text \<open>The em dash U+2014 lies above 255: on the strings of the model an expression that asks
  for it matches no code unit.\<close>

definition em_dash :: rx where
  "em_dash = RSet []"

section \<open>TextCleanupEngine: \<^verbatim>\<open>cleanTranscription\<close>\<close>

definition basic_fillers :: "string list" where
  "basic_fillers = [''um'', ''uh'', ''ah'', ''er'', ''hmm'', ''umm'', ''uhh'', ''ehh'', ''mm'', ''mhm'',
     ''laugh'', ''laughs'', ''cough'', ''coughs'', ''pause'']"

definition common_fillers :: "string list" where
  "common_fillers = [''like'', ''well'', ''so'', ''anyway'', ''basically'', ''literally'', ''actually'']"

definition phrase_fillers :: "string list" where
  "phrase_fillers = [''i mean'', ''you know'', ''kind of'', ''sort of'']"

text \<open>Safety check: \<^verbatim>\<open>if (cleaned.length > 10000) cleaned = cleaned.substring(0, 10000) + '...'\<close>.\<close>

definition truncate_long :: "string \<Rightarrow> string" where
  "truncate_long t = (if length t > 10000 then take 10000 t @ ''...'' else t)"

text \<open>Phase 1: \<^verbatim>\<open>/\s*[\(\[]([^\)\]]*?)[\)\]]\s*/g\<close> to one space.\<close>

definition phase1 :: "string \<Rightarrow> string" where
  "phase1 t = re_replace False
     (RSeqs [RStar rx_space, chars ''(['', RGroup 1 (RLazyStar (RNotSet (map CChar '')]''))), chars '')]'', RStar rx_space])
     (lit '' '') t"

text \<open>Phase 2: \<^verbatim>\<open>/\.{3,}/g\<close> to a period.\<close>

definition phase2 :: "string \<Rightarrow> string" where
  "phase2 t = re_replace False (RAtLeast3 (RChar CHR ''.'')) (lit ''.'') t"

text \<open>Phase 3, false starts: an em dash with \<^verbatim>\<open>\s*$\<close> behind it and then every em dash
  to a period, \<^verbatim>\<open>/\b(\w+)-\s+\1\b/gi\<close> to \<^verbatim>\<open>$1\<close>, \<^verbatim>\<open>/\b\w+-\s+/g\<close> to one space.
  The innermost replacement is the first statement of the source, here and below.\<close>

definition phase3 :: "string \<Rightarrow> string" where
  "phase3 t =
     re_replace False (RSeqs [RWordB, RPlus rx_word, RChar CHR ''-'', RPlus rx_space]) (lit '' '')
    (re_replace True (RSeqs [RWordB, RGroup 1 (RPlus rx_word), RChar CHR ''-'', RPlus rx_space, RBackref 1, RWordB]) (grp 1)
    (re_replace False em_dash (lit ''.'')
    (re_replace False (RSeqs [em_dash, RStar rx_space, REol]) (lit ''.'') t)))"

text \<open>Phase 4: filler words.
  \<^verbatim>\<open>/\b(um|uh|...|pause)[.,;:]*\s*/gi\<close> to one space,
  \<^verbatim>\<open>/\b(like|...|actually)[.,;:]*\s+/gi\<close> to one space,
  \<^verbatim>\<open>/\b(i mean|you know|kind of|sort of)[.,;:]*\s*/gi\<close> to one space,
  \<^verbatim>\<open>/^\s*(um|...|pause|like|...|actually)[.,;:]*\s+/gi\<close> to nothing; then the orphaned
  punctuation: \<^verbatim>\<open>/\s+,\s+/g\<close> to \<^verbatim>\<open>', '\<close>, \<^verbatim>\<open>/,\s*,+/g\<close> to a comma,
  \<^verbatim>\<open>/\.\s*\.+/g\<close> to a period.\<close>

definition phase4 :: "string \<Rightarrow> string" where
  "phase4 t =
     re_replace False (RSeqs [RChar CHR ''.'', RStar rx_space, RPlus (RChar CHR ''.'')]) (lit ''.'')
    (re_replace False (RSeqs [RChar CHR '','', RStar rx_space, RPlus (RChar CHR '','')]) (lit '','')
    (re_replace False (RSeqs [RPlus rx_space, RChar CHR '','', RPlus rx_space]) (lit '', '')
    (re_replace True (RSeqs [RBol, RStar rx_space, RGroup 1 (RWords (basic_fillers @ common_fillers)),
                             RStar (chars ''.,;:''), RPlus rx_space]) (lit [])
    (re_replace True (RSeqs [RWordB, RGroup 1 (RWords phrase_fillers), RStar (chars ''.,;:''), RStar rx_space]) (lit '' '')
    (re_replace True (RSeqs [RWordB, RGroup 1 (RWords common_fillers), RStar (chars ''.,;:''), RPlus rx_space]) (lit '' '')
    (re_replace True (RSeqs [RWordB, RGroup 1 (RWords basic_fillers), RStar (chars ''.,;:''), RStar rx_space]) (lit '' '')
       t))))))"

text \<open>Phase 5: repeated words, \<^verbatim>\<open>/\b(\w+)\s+\1\b/gi\<close> to \<^verbatim>\<open>$1\<close>.\<close>

definition phase5 :: "string \<Rightarrow> string" where
  "phase5 t = re_replace True (RSeqs [RWordB, RGroup 1 (RPlus rx_word), RPlus rx_space, RBackref 1, RWordB]) (grp 1) t"

text \<open>Phase 6: \<^verbatim>\<open>/\s{2,}/g\<close> to one space, \<^verbatim>\<open>/^\s+|\s+$/g\<close> to nothing.\<close>

definition phase6 :: "string \<Rightarrow> string" where
  "phase6 t =
     re_replace False (RAlt (RSeq RBol (RPlus rx_space)) (RSeq (RPlus rx_space) REol)) (lit [])
    (re_replace False (RAtLeast2 rx_space) (lit '' '') t)"

text \<open>Phase 7: \<^verbatim>\<open>/\s+([.,!?;:])/g\<close> to \<^verbatim>\<open>$1\<close>.\<close>

definition phase7 :: "string \<Rightarrow> string" where
  "phase7 t = re_replace False (RSeq (RPlus rx_space) (RGroup 1 (chars ''.,!?;:''))) (grp 1) t"

text \<open>Phase 8: \<^verbatim>\<open>/[.,]{2,}/g\<close> to a period, \<^verbatim>\<open>/,\s*\./g\<close> to a period,
  \<^verbatim>\<open>/;\s*[.,]/g\<close> to \<^verbatim>\<open>;\<close>, \<^verbatim>\<open>/:\s*[.,;]/g\<close> to \<^verbatim>\<open>:\<close>, then
  \<^verbatim>\<open>/([.!?])\s{2,}/g\<close> and \<^verbatim>\<open>/([,;:])\s{2,}/g\<close> to \<^verbatim>\<open>'$1 '\<close>.\<close>

definition grp_space :: "nat \<Rightarrow> mstate \<Rightarrow> mstate \<Rightarrow> string" where
  "grp_space n st st' = group n st' @ '' ''"

definition phase8 :: "string \<Rightarrow> string" where
  "phase8 t =
     re_replace False (RSeq (RGroup 1 (chars '',;:'')) (RAtLeast2 rx_space)) (grp_space 1)
    (re_replace False (RSeq (RGroup 1 (chars ''.!?'')) (RAtLeast2 rx_space)) (grp_space 1)
    (re_replace False (RSeqs [RChar CHR '':'', RStar rx_space, chars ''.,;'']) (lit '':'')
    (re_replace False (RSeqs [RChar CHR '';'', RStar rx_space, chars ''.,'']) (lit '';'')
    (re_replace False (RSeqs [RChar CHR '','', RStar rx_space, RChar CHR ''.'']) (lit ''.'')
    (re_replace False (RAtLeast2 (chars ''.,'')) (lit ''.'') t)))))"

text \<open>Phase 9: \<^verbatim>\<open>/([.!?])\s*([a-z])/g\<close> to the mark, a space and the letter in upper case.
  Phase 10: \<^verbatim>\<open>/\?\s*([a-z])/g\<close> to \<^verbatim>\<open>'? '\<close> and the letter in upper case.\<close>

definition capitalize_after :: "mstate \<Rightarrow> mstate \<Rightarrow> string" where
  "capitalize_after st st' = group 1 st' @ '' '' @ toUpperCase (group 2 st')"

definition capitalize_question :: "mstate \<Rightarrow> mstate \<Rightarrow> string" where
  "capitalize_question st st' = ''? '' @ toUpperCase (group 1 st')"

definition phase9 :: "string \<Rightarrow> string" where
  "phase9 t = re_replace False
     (RSeqs [RGroup 1 (chars ''.!?''), RStar rx_space, RGroup 2 (RSet [CRange CHR ''a'' CHR ''z''])])
     capitalize_after t"

definition phase10 :: "string \<Rightarrow> string" where
  "phase10 t = re_replace False
     (RSeqs [RChar CHR ''?'', RStar rx_space, RGroup 1 (RSet [CRange CHR ''a'' CHR ''z''])])
     capitalize_question t"

definition cleanup_phases :: "string \<Rightarrow> string" where
  "cleanup_phases text =
     phase10 (phase9 (phase8 (phase7 (phase6 (phase5 (phase4 (phase3 (phase2 (phase1
       (truncate_long text))))))))))"

text \<open>Phase 11: \<^verbatim>\<open>if (cleaned && !cleaned.match(/[.!?]$/)) cleaned += '.'\<close>.\<close>

definition ends_sentence :: "string \<Rightarrow> bool" where
  "ends_sentence s = re_test False (RSeq (chars ''.!?'') REol) s"

definition phase11 :: "string \<Rightarrow> string" where
  "phase11 cleaned = (if cleaned \<noteq> [] \<and> \<not> ends_sentence cleaned then cleaned @ ''.'' else cleaned)"

text \<open>Final safety check: \<^verbatim>\<open>if (!cleaned || cleaned.trim() === '') return text\<close>.\<close>

definition final_check :: "string \<Rightarrow> string \<Rightarrow> string" where
  "final_check text cleaned = (if cleaned = [] \<or> trim cleaned = [] then text else cleaned)"

text \<open>The argument is a string (for another value the source returns \<^verbatim>\<open>text || ''\<close>); the
  empty string is returned at once. No step of the body throws on a string, so the
  \<^verbatim>\<open>catch\<close> branch, which returns the input, is never taken.\<close>

definition cleanTranscription :: "string \<Rightarrow> string" where
  "cleanTranscription text =
     (if text = [] then [] else final_check text (phase11 (cleanup_phases text)))"

section \<open>ParagraphFormatter: \<^verbatim>\<open>formatTextIntoParagraphs\<close>\<close>

text \<open>\<^verbatim>\<open>CONFIG.TEXT_FORMATTING\<close>.\<close>

definition MAX_PARAGRAPH_SENTENCES :: nat where
  "MAX_PARAGRAPH_SENTENCES = 3"

definition MAX_PARAGRAPH_WORDS :: nat where
  "MAX_PARAGRAPH_WORDS = 80"

definition MIN_PARAGRAPH_WORDS :: nat where
  "MIN_PARAGRAPH_WORDS = 40"

definition TOPIC_TRANSITIONS :: "string list" where
  "TOPIC_TRANSITIONS =
     [''however'', ''but'', ''although'', ''meanwhile'', ''furthermore'', ''moreover'',
      ''additionally'', ''on the other hand'', ''in contrast'', ''nevertheless'',
      ''therefore'', ''consequently'', ''as a result'', ''in conclusion'',
      ''first'', ''second'', ''third'', ''finally'', ''lastly'', ''next'', ''then'',
      ''now'', ''so'', ''anyway'', ''also'', ''actually'', ''basically'', ''essentially'']"

definition TIME_INDICATORS :: "string list" where
  "TIME_INDICATORS =
     [''yesterday'', ''today'', ''tomorrow'', ''last week'', ''next week'',
      ''last month'', ''next month'', ''last year'', ''next year'',
      ''earlier'', ''later'', ''recently'', ''soon'', ''eventually'']"

text \<open>\<^verbatim>\<open>s => s.trim().length > 0\<close>.\<close>

definition nonblank :: "string \<Rightarrow> bool" where
  "nonblank s \<longleftrightarrow> length (trim s) > 0"

text \<open>\<^verbatim>\<open>text.trim().replace(/\s+/g, ' ').replace(/([.!?])\s*([A-Z])/g, '$1 $2')\<close>.\<close>

definition grp_space_grp :: "mstate \<Rightarrow> mstate \<Rightarrow> string" where
  "grp_space_grp st st' = group 1 st' @ '' '' @ group 2 st'"

definition cleanText :: "string \<Rightarrow> string" where
  "cleanText text =
     re_replace False (RSeqs [RGroup 1 (chars ''.!?''), RStar rx_space, RGroup 2 (RSet [CRange CHR ''A'' CHR ''Z''])])
       grp_space_grp
    (re_replace False (RPlus rx_space) (lit '' '') (trim text))"

text \<open>\<^verbatim>\<open>cleanText.split(/([.!?]+)/).filter(s => s.trim().length > 0)\<close>: the capture group puts
  every run of closing marks into the array as an element of its own.\<close>

definition sentences_of :: "string \<Rightarrow> string list" where
  "sentences_of ct = filter nonblank (re_split False (RGroup 1 (RPlus (chars ''.!?''))) [1] ct)"

text \<open>The two tests on the lower-cased sentence, for one transition word and one time
  indicator.\<close>

definition transition_in :: "string \<Rightarrow> string \<Rightarrow> bool" where
  "transition_in lowerSentence transition \<longleftrightarrow>
     startsWith lowerSentence (toLowerCase transition @ '' '') \<or>
     str_includes lowerSentence ('', '' @ toLowerCase transition @ '' '')"

definition indicator_in :: "string \<Rightarrow> string \<Rightarrow> bool" where
  "indicator_in lowerSentence indicator \<longleftrightarrow> str_includes lowerSentence (toLowerCase indicator)"

text \<open>\<^verbatim>\<open>/^(well|so|now|anyway|look|listen|you know what)\s+/i.test(sentence)\<close>.\<close>

definition discourse_marker :: "string \<Rightarrow> bool" where
  "discourse_marker sentence =
     re_test True (RSeqs [RBol, RGroup 1 (RWords [''well'', ''so'', ''now'', ''anyway'', ''look'', ''listen'',
       ''you know what'']), RPlus rx_space]) sentence"

definition shouldBreak :: "string \<Rightarrow> nat \<Rightarrow> nat \<Rightarrow> bool" where
  "shouldBreak sentence sentenceCount wordCount \<longleftrightarrow>
     (sentenceCount \<ge> 2 \<and> wordCount \<ge> MIN_PARAGRAPH_WORDS) \<or>
     sentenceCount \<ge> MAX_PARAGRAPH_SENTENCES \<or>
     wordCount \<ge> MAX_PARAGRAPH_WORDS \<or>
     list_ex (transition_in (toLowerCase sentence)) TOPIC_TRANSITIONS \<or>
     list_ex (indicator_in (toLowerCase sentence)) TIME_INDICATORS \<or>
     discourse_marker sentence"

text \<open>The loop over \<^verbatim>\<open>sentences\<close> with its four variables, and the push of the last
  paragraph behind it.\<close>

fun paragraph_loop :: "string list \<Rightarrow> string list \<Rightarrow> string list \<Rightarrow> nat \<Rightarrow> nat \<Rightarrow> string list" where
  "paragraph_loop [] paragraphs currentParagraph sentenceCount wordCount =
     (if currentParagraph \<noteq> [] then paragraphs @ [trim (join '' '' currentParagraph)] else paragraphs)"
| "paragraph_loop (s # ss) paragraphs currentParagraph sentenceCount wordCount =
     (if trim s = [] then paragraph_loop ss paragraphs currentParagraph sentenceCount wordCount
      else if shouldBreak (trim s) sentenceCount wordCount \<and> currentParagraph \<noteq> []
      then paragraph_loop ss (paragraphs @ [trim (join '' '' currentParagraph)]) [trim s]
             1 (length (re_split False (RPlus rx_space) [] (trim s)))
      else paragraph_loop ss paragraphs (currentParagraph @ [trim s])
             (sentenceCount + 1) (wordCount + length (re_split False (RPlus rx_space) [] (trim s))))"

text \<open>\<^verbatim>\<open>(paragraphs.length > 1 ? paragraphs.join('\n\n') : cleanText).replace(/\s+([.!?])/g, '$1')\<close>.\<close>

definition join_paragraphs :: "string \<Rightarrow> string list \<Rightarrow> string" where
  "join_paragraphs ct paragraphs =
     re_replace False (RSeq (RPlus rx_space) (RGroup 1 (chars ''.!?''))) (grp 1)
       (if length paragraphs > 1 then join [CHR 0x0A, CHR 0x0A] paragraphs else ct)"

definition format_clean :: "string \<Rightarrow> string" where
  "format_clean ct =
     (if length (sentences_of ct) \<le> 2 then ct
      else join_paragraphs ct (paragraph_loop (sentences_of ct) [] [] 0 0))"

definition formatTextIntoParagraphs :: "string \<Rightarrow> string" where
  "formatTextIntoParagraphs text =
     (if text = [] \<or> length (trim text) = 0 then text else format_clean (cleanText text))"

section \<open>ActivationPhraseExtractor: \<^verbatim>\<open>extractCleanContent\<close>\<close>

text \<open>\<^verbatim>\<open>/[.,!?;:'")\]\}]/.test(c)\<close> and \<^verbatim>\<open>/\s/.test(c)\<close> on the one code unit
  \<^verbatim>\<open>transcription[endIndex]\<close>.\<close>

definition punct_after :: "char \<Rightarrow> bool" where
  "punct_after c = re_test False (chars (''.,!?;:'' @ [CHR 0x27, CHR 0x22] @ '')]}'')) [c]"

definition space_after :: "char \<Rightarrow> bool" where
  "space_after c = re_test False rx_space [c]"

text \<open>\<open>endIndex\<close> starts at \<^verbatim>\<open>activationPhrase.length\<close>, the length of the phrase as it was
  passed; the two \<^verbatim>\<open>while\<close> loops move it over the code units of the transcription that
  pass the test, which \<^const>\<open>dropWhile\<close> does on the text from \<open>endIndex\<close> on.\<close>

definition extractCleanContent :: "string \<Rightarrow> string \<Rightarrow> string" where
  "extractCleanContent transcription activationPhrase =
     (if transcription = [] \<or> activationPhrase = [] then transcription
      else if startsWith (trim (toLowerCase transcription)) (trim (toLowerCase activationPhrase))
      then trim (dropWhile space_after (dropWhile punct_after (drop (length activationPhrase) transcription)))
      else transcription)"

section \<open>SessionMetricsCalculator\<close>

text \<open>
  Numbers. A count is a natural number. Every other number of the source is an IEEE 754
  binary64 value: \<open>Fin r\<close> is the finite double with the rational value \<open>r\<close>, besides the
  two infinities and \<^verbatim>\<open>NaN\<close>. The doubles among the \<open>Fin r\<close> are those that \<open>fl\<close> leaves as
  they are. Zero has no sign in the model: the source compares numbers and stores them, and
  never divides by a zero.
\<close>

datatype double = Fin rat | PosInf | NegInf | NaN

definition pow2 :: "int \<Rightarrow> rat" where
  "pow2 k = (if 0 \<le> k then 2 ^ nat k else 1 / 2 ^ nat (- k))"

text \<open>The number of binary digits of a positive integer.\<close>

function bit_length :: "int \<Rightarrow> int" where
  "bit_length x = (if x > 0 then bit_length (x div 2) + 1 else 0)"
  by pat_completeness auto
termination
  by (relation "measure nat") auto

text \<open>For a positive rational \<open>a\<close>, the exponent \<open>e\<close> with \<open>2^e \<le> a < 2^(e+1)\<close>: the difference
  of the bit lengths of numerator and denominator, or one less.\<close>

definition exponent_of :: "rat \<Rightarrow> int" where
  "exponent_of a =
     (if pow2 (bit_length (fst (quotient_of a)) - bit_length (snd (quotient_of a))) \<le> a
      then bit_length (fst (quotient_of a)) - bit_length (snd (quotient_of a))
      else bit_length (fst (quotient_of a)) - bit_length (snd (quotient_of a)) - 1)"

text \<open>Rounding to the nearest integer, a tie to the even one.\<close>

definition round_half_even :: "rat \<Rightarrow> int" where
  "round_half_even y =
     (if y - of_int \<lfloor>y\<rfloor> < 1 / 2 then \<lfloor>y\<rfloor>
      else if 1 / 2 < y - of_int \<lfloor>y\<rfloor> then \<lfloor>y\<rfloor> + 1
      else if even \<lfloor>y\<rfloor> then \<lfloor>y\<rfloor> else \<lfloor>y\<rfloor> + 1)"

text \<open>The result of an arithmetic operation is the exact result rounded to a double, to the
  nearest and a tie to the even significand: the significand has 53 binary digits, so the
  doubles around a positive \<open>a\<close> are the multiples of \<open>2^(e-52)\<close>, and of \<open>2^(-1074)\<close> in the
  subnormal range; a result that rounds to \<open>2^1024\<close> or more, that is, to a number with
  an exponent of 1024 or more, is an infinity.\<close>

definition quantum :: "rat \<Rightarrow> int" where
  "quantum a = max (exponent_of a - 52) (- 1074)"

definition nearest :: "rat \<Rightarrow> rat" where
  "nearest a = of_int (round_half_even (a / pow2 (quantum a))) * pow2 (quantum a)"

definition fl :: "rat \<Rightarrow> double" where
  "fl x =
     (if x = 0 then Fin 0
      else if 0 < x then (if 1024 \<le> exponent_of (nearest x) then PosInf else Fin (nearest x))
      else (if 1024 \<le> exponent_of (nearest (- x)) then NegInf else Fin (- nearest (- x))))"

text \<open>Division and multiplication of doubles, \<^verbatim>\<open>x <= 0\<close>, \<^verbatim>\<open>Math.round\<close> (to the nearest
  integer, a half upwards; an infinity and \<^verbatim>\<open>NaN\<close> stay) and the double of a count.\<close>

fun d_div :: "double \<Rightarrow> double \<Rightarrow> double" where
  "d_div NaN y = NaN"
| "d_div x NaN = NaN"
| "d_div (Fin a) (Fin b) =
     (if b = 0 then (if a = 0 then NaN else if 0 < a then PosInf else NegInf) else fl (a / b))"
| "d_div (Fin a) PosInf = Fin 0"
| "d_div (Fin a) NegInf = Fin 0"
| "d_div PosInf (Fin b) = (if 0 \<le> b then PosInf else NegInf)"
| "d_div NegInf (Fin b) = (if 0 \<le> b then NegInf else PosInf)"
| "d_div PosInf PosInf = NaN"
| "d_div PosInf NegInf = NaN"
| "d_div NegInf PosInf = NaN"
| "d_div NegInf NegInf = NaN"

fun d_mul :: "double \<Rightarrow> double \<Rightarrow> double" where
  "d_mul NaN y = NaN"
| "d_mul x NaN = NaN"
| "d_mul (Fin a) (Fin b) = fl (a * b)"
| "d_mul (Fin a) PosInf = (if a = 0 then NaN else if 0 < a then PosInf else NegInf)"
| "d_mul (Fin a) NegInf = (if a = 0 then NaN else if 0 < a then NegInf else PosInf)"
| "d_mul PosInf (Fin b) = (if b = 0 then NaN else if 0 < b then PosInf else NegInf)"
| "d_mul NegInf (Fin b) = (if b = 0 then NaN else if 0 < b then NegInf else PosInf)"
| "d_mul PosInf PosInf = PosInf"
| "d_mul PosInf NegInf = NegInf"
| "d_mul NegInf PosInf = NegInf"
| "d_mul NegInf NegInf = PosInf"

fun le_zero :: "double \<Rightarrow> bool" where
  "le_zero (Fin a) = (a \<le> 0)"
| "le_zero NegInf = True"
| "le_zero PosInf = False"
| "le_zero NaN = False"

fun Math_round :: "double \<Rightarrow> double" where
  "Math_round (Fin x) = Fin (of_int \<lfloor>x + 1 / 2\<rfloor>)"
| "Math_round PosInf = PosInf"
| "Math_round NegInf = NegInf"
| "Math_round NaN = NaN"

definition of_count :: "nat \<Rightarrow> double" where
  "of_count n = Fin (of_nat n)"

definition countWords :: "string \<Rightarrow> nat" where
  "countWords text =
     (if text = [] \<or> length (trim text) = 0 then 0
      else length (re_split False (RPlus rx_space) [] (trim text)))"

text \<open>\<^verbatim>\<open>Math.round((words / durationSeconds) * 60)\<close>.\<close>

definition calculateWPM :: "string \<Rightarrow> double \<Rightarrow> double" where
  "calculateWPM text durationSeconds =
     (if le_zero durationSeconds then Fin 0
      else Math_round (d_mul (d_div (of_count (countWords text)) durationSeconds) (Fin 60)))"















text \<open>\<^verbatim>\<open>Math.round((sounds / durationSeconds) * 60)\<close> with \<^verbatim>\<open>sounds = text.replace(/\s+/g, '').length\<close>.\<close>

definition calculateSpeechRate :: "string \<Rightarrow> double \<Rightarrow> double" where
  "calculateSpeechRate text durationSeconds =
     (if le_zero durationSeconds then Fin 0
      else Math_round (d_mul (d_div (of_count (length (re_replace False (RPlus rx_space) (lit []) text)))
                                    durationSeconds)
                             (Fin 60)))"




section \<open>TemplateEngine\<close>

text \<open>The values that a variable of a template can have, and a variables object as the list
  of its own entries in the order of \<^verbatim>\<open>Object.entries\<close>. Reading a property that the object
  does not own falls through to \<^verbatim>\<open>Object.prototype\<close>, which answers for the names below with
  a function or an object, and with \<^verbatim>\<open>undefined\<close> for every other name.\<close>

datatype jsval = JUndefined | JNull | JString string

type_synonym js_object = "(string \<times> jsval) list"

definition Object_prototype_names :: "string list" where
  "Object_prototype_names =
     [''constructor'', ''hasOwnProperty'', ''isPrototypeOf'', ''propertyIsEnumerable'',
      ''toLocaleString'', ''toString'', ''valueOf'', ''__proto__'',
      ''__defineGetter__'', ''__defineSetter__'', ''__lookupGetter__'', ''__lookupSetter__'']"

datatype property = Own jsval | Inherited | Absent

definition get_property :: "js_object \<Rightarrow> string \<Rightarrow> property" where
  "get_property obj key =
     (case map_of obj key of Some v \<Rightarrow> Own v
      | None \<Rightarrow> if key \<in> set Object_prototype_names then Inherited else Absent)"

definition ToString :: "jsval \<Rightarrow> string" where
  "ToString v = (case v of JUndefined \<Rightarrow> ''undefined'' | JNull \<Rightarrow> ''null'' | JString s \<Rightarrow> s)"

record render_result =
  success :: bool
  result :: string
  missingVars :: "string list"
  error :: "string option"

text \<open>\<^verbatim>\<open>variablePattern = /\{([^}]+)\}/g\<close>; the \<^verbatim>\<open>exec\<close> loop collects group 1 of every match
  and \<^verbatim>\<open>[...new Set(matches)]\<close> keeps the first occurrence of each name.\<close>

definition variablePattern :: rx where
  "variablePattern = RSeqs [RChar CHR ''{'', RGroup 1 (RPlus (RNotSet [CChar CHR ''}''])), RChar CHR ''}'']"

definition dedupe :: "string list \<Rightarrow> string list" where
  "dedupe xs = rev (remdups (rev xs))"

definition extractTemplateVariables :: "string \<Rightarrow> string list" where
  "extractTemplateVariables template = dedupe (map (group 1) (re_match_all False variablePattern [] template))"

text \<open>\<^verbatim>\<open>value === undefined || value === null || value === ''\<close> for
  \<^verbatim>\<open>value = providedVars[varName]\<close>.\<close>

definition is_missing :: "js_object \<Rightarrow> string \<Rightarrow> bool" where
  "is_missing providedVars varName =
     (case get_property providedVars varName of
        Own JUndefined \<Rightarrow> True | Own JNull \<Rightarrow> True | Own (JString s) \<Rightarrow> s = []
      | Inherited \<Rightarrow> False | Absent \<Rightarrow> True)"

definition findMissingVariables :: "string list \<Rightarrow> js_object \<Rightarrow> string list" where
  "findMissingVariables templateVars providedVars = filter (is_missing providedVars) templateVars"

text \<open>The replacement text of \<^verbatim>\<open>String.prototype.replace\<close> for an expression without capture
  groups: \<^verbatim>\<open>$$\<close> is a dollar sign, \<^verbatim>\<open>$&\<close> the matched text, \<^verbatim>\<open>$`\<close> the text before the
  match, \<^verbatim>\<open>$'\<close> the text behind it, everything else stands for itself.\<close>

fun get_substitution :: "string \<Rightarrow> string \<Rightarrow> string \<Rightarrow> string \<Rightarrow> string" where
  "get_substitution [] matched preceding following = []"
| "get_substitution [c] matched preceding following = [c]"
| "get_substitution (c # d # r) matched preceding following =
     (if c \<noteq> CHR ''$'' then c # get_substitution (d # r) matched preceding following
      else if d = CHR ''$'' then CHR ''$'' # get_substitution r matched preceding following
      else if d = CHR ''&'' then matched @ get_substitution r matched preceding following
      else if d = CHR 0x60 then preceding @ get_substitution r matched preceding following
      else if d = CHR 0x27 then following @ get_substitution r matched preceding following
      else c # get_substitution (d # r) matched preceding following)"

definition substitution :: "string \<Rightarrow> mstate \<Rightarrow> mstate \<Rightarrow> string" where
  "substitution v st st' = get_substitution v (consumed st st') (rev (before st)) (rest st')"

text \<open>The loop over \<^verbatim>\<open>Object.entries(variables)\<close>. The expression is built from the
  placeholder with every special character escaped, so it matches the placeholder
  literally.\<close>

fun substitute :: "js_object \<Rightarrow> string \<Rightarrow> string" where
  "substitute [] res = res"
| "substitute ((key, v) # entries) res =
     substitute entries (re_replace False (RStr (''{'' @ key @ ''}'')) (substitution (ToString v)) res)"

definition render :: "string \<Rightarrow> js_object \<Rightarrow> render_result" where
  "render template variables =
     (if template = []
      then \<lparr>success = False, result = [], missingVars = [], error = Some ''No template provided''\<rparr>
      else if findMissingVariables (extractTemplateVariables template) variables \<noteq> []
      then \<lparr>success = False, result = [],
             missingVars = findMissingVariables (extractTemplateVariables template) variables,
             error = Some (''Missing required variables: '' @
                      join '', '' (findMissingVariables (extractTemplateVariables template) variables))\<rparr>
      else \<lparr>success = True, result = substitute variables template, missingVars = [], error = None\<rparr>)"

section \<open>PresetManager\<close>

record preset =
  id' :: string
  name :: string
  prompt :: string
  isDefault :: bool
  isSystem :: bool
  enabled :: bool
  createdAt :: nat
  lastUsed :: "nat option"
  usageCount :: nat

text \<open>A \<^verbatim>\<open>Map\<close> from ids to presets, and the object stored under the key \<^verbatim>\<open>presets\<close>, are
  lists of entries in insertion order: setting a key that is present replaces its value in
  place, a new key goes to the end.\<close>

type_synonym preset_map = "(string \<times> preset) list"

fun map_set :: "string \<Rightarrow> preset \<Rightarrow> preset_map \<Rightarrow> preset_map" where
  "map_set k v [] = [(k, v)]"
| "map_set k v ((k', v') # m) = (if k' = k then (k, v) # m else (k', v') # map_set k v m)"

fun map_delete :: "string \<Rightarrow> preset_map \<Rightarrow> preset_map" where
  "map_delete k [] = []"
| "map_delete k ((k', v') # m) = (if k' = k then m else (k', v') # map_delete k m)"

definition map_has :: "preset_map \<Rightarrow> string \<Rightarrow> bool" where
  "map_has m k \<longleftrightarrow> map_of m k \<noteq> None"

text \<open>An id or \<^verbatim>\<open>null\<close>; \<^verbatim>\<open>null\<close> and the empty string are falsy.\<close>

definition truthy :: "string option \<Rightarrow> bool" where
  "truthy v = (case v of None \<Rightarrow> False | Some s \<Rightarrow> s \<noteq> [])"

text \<open>The keys of one storage area that the manager reads and writes: \<^verbatim>\<open>presets\<close>,
  \<^verbatim>\<open>selectedPresetId\<close> and the keys of the old per-site system. \<open>None\<close> is a key that is not
  set (for \<^verbatim>\<open>selectedPresetId\<close> also \<^verbatim>\<open>null\<close>). The two areas can each be out of service;
  a call on such an area rejects.\<close>

record store =
  presets_key :: "preset_map option"
  selectedPresetId_key :: "string option"
  enableUrlEnhancement :: "bool option"
  twitterCustomPrompt :: "string option"
  linkedinCustomPrompt :: "string option"
  gmailCustomPrompt :: "string option"
  twitterPresetEnabled :: "bool option"
  linkedinPresetEnabled :: "bool option"
  gmailPresetEnabled :: "bool option"

record chrome_storage =
  sync :: store
  local :: store
  sync_ok :: bool
  local_ok :: bool

record manager =
  presets :: preset_map
  selectedPresetId :: "string option"
  initialized :: bool

record world =
  mgr :: manager
  storage :: chrome_storage

datatype js_error = Error string

definition storage_error :: js_error where
  "storage_error = Error ''storage unavailable''"

text \<open>The constructor: an empty map, no selection, not initialized.\<close>

definition new_manager :: manager where
  "new_manager = \<lparr>presets = [], selectedPresetId = None, initialized = False\<rparr>"

text \<open>\<^verbatim>\<open>getStorage\<close>: the sync area, or the local area when sync rejects; \<open>None\<close> when both
  reject. \<^verbatim>\<open>saveStorage\<close> writes one key the same way.\<close>

definition getStorage :: "chrome_storage \<Rightarrow> store option" where
  "getStorage c = (if sync_ok c then Some (sync c) else if local_ok c then Some (local c) else None)"

definition saveStorage_presets :: "preset_map \<Rightarrow> chrome_storage \<Rightarrow> chrome_storage option" where
  "saveStorage_presets m c =
     (if sync_ok c then Some (c\<lparr>sync := (sync c)\<lparr>presets_key := Some m\<rparr>\<rparr>)
      else if local_ok c then Some (c\<lparr>local := (local c)\<lparr>presets_key := Some m\<rparr>\<rparr>)
      else None)"

definition saveStorage_selected :: "string option \<Rightarrow> chrome_storage \<Rightarrow> chrome_storage option" where
  "saveStorage_selected s c =
     (if sync_ok c then Some (c\<lparr>sync := (sync c)\<lparr>selectedPresetId_key := s\<rparr>\<rparr>)
      else if local_ok c then Some (c\<lparr>local := (local c)\<lparr>selectedPresetId_key := s\<rparr>\<rparr>)
      else None)"

text \<open>\<^verbatim>\<open>savePresets\<close> catches the rejection and goes on.\<close>

definition savePresets :: "world \<Rightarrow> world" where
  "savePresets w =
     (case saveStorage_presets (presets (mgr w)) (storage w) of
        None \<Rightarrow> w | Some c \<Rightarrow> w\<lparr>storage := c\<rparr>)"

text \<open>\<^verbatim>\<open>loadPresets\<close>: every stored preset is set under its own id.\<close>

fun set_all :: "preset list \<Rightarrow> preset_map \<Rightarrow> preset_map" where
  "set_all [] m = m"
| "set_all (p # ps) m = set_all ps (map_set (id' p) p m)"

definition stored_presets :: "store \<Rightarrow> preset list" where
  "stored_presets s = (case presets_key s of None \<Rightarrow> [] | Some m \<Rightarrow> map snd m)"

definition loadPresets :: "world \<Rightarrow> world" where
  "loadPresets w =
     (case getStorage (storage w) of
        None \<Rightarrow> w
      | Some s \<Rightarrow> w\<lparr>mgr := (mgr w)\<lparr>presets := set_all (stored_presets s) [],
                                   selectedPresetId := selectedPresetId_key s\<rparr>\<rparr>)"

text \<open>The three system presets and their prompts.\<close>

definition email_prompt :: string where
  "email_prompt =
        ''Reformat the user message.'' @ [CHR 0x0A] @
        ''- Structure it for email communication, with every sentence or so in a new paragraph.'' @ [CHR 0x0A] @
        ''- Include a greeting and a sign-off.'' @ [CHR 0x0A] @
        ''- Check for correct grammar and punctuation.'' @ [CHR 0x0A] @
        ''- Do not change the tone.'' @ [CHR 0x0A] @
        ''- Do not use markdown.'' @ [CHR 0x0A] @
        ''- Use as much of the original text as possible.'' @ [CHR 0x0A] @
        ''- Sign off each email just '' @ [CHR 0x22] @ ''Thanks,'' @ [CHR 0x22] @ '' or '' @ [CHR 0x22] @ ''Cheers,'' @ [CHR 0x22] @ ''.'' @ [CHR 0x0A] @
        ''- If the name of the recipient isn'' @ [CHR 0x27] @ ''t known use '' @ [CHR 0x22] @ ''Hey,'' @ [CHR 0x22] @ '' for greeting.'' @ [CHR 0x0A] @
        [CHR 0x0A] @
        ''Original transcript: {transcript}''"

definition professional_prompt :: string where
  "professional_prompt =
        ''Reformat this message using professional language and tone.'' @ [CHR 0x0A] @
        [CHR 0x0A] @
        ''Guidelines:'' @ [CHR 0x0A] @
        ''- Use formal vocabulary and grammar'' @ [CHR 0x0A] @
        ''- Remove casual expressions and slang'' @ [CHR 0x0A] @
        ''- Structure thoughts clearly and logically'' @ [CHR 0x0A] @
        ''- Maintain respectful, business-appropriate tone'' @ [CHR 0x0A] @
        ''- Fix any grammatical errors or awkward phrasing'' @ [CHR 0x0A] @
        ''- Keep the original meaning and intent intact'' @ [CHR 0x0A] @
        ''- Use industry-appropriate terminology when relevant'' @ [CHR 0x0A] @
        [CHR 0x0A] @
        ''Focus on: Professional presentation, clarity, and respectful communication.'' @ [CHR 0x0A] @
        [CHR 0x0A] @
        ''Original transcript: {transcript}''"

definition basic_prompt :: string where
  "basic_prompt =
        ''Clean up this transcription by following these rules:'' @ [CHR 0x0A] @
        [CHR 0x0A] @
        ''1. Remove filler words and clean surrounding punctuation: '' @ [CHR 0x22] @ ''um'' @ [CHR 0x22] @ '', '' @ [CHR 0x22] @ ''uh'' @ [CHR 0x22] @ '', '' @ [CHR 0x22] @ ''er'' @ [CHR 0x22] @ '', '' @ [CHR 0x22] @ ''ah'' @ [CHR 0x22] @ '', '' @ [CHR 0x22] @ ''like'' @ [CHR 0x22] @ '', '' @ [CHR 0x22] @ ''you know'' @ [CHR 0x22] @ '', '' @ [CHR 0x22] @ ''so'' @ [CHR 0x22] @ '', '' @ [CHR 0x22] @ ''well'' @ [CHR 0x22] @ '', '' @ [CHR 0x22] @ ''anyway'' @ [CHR 0x22] @ '', '' @ [CHR 0x22] @ ''basically'' @ [CHR 0x22] @ '', '' @ [CHR 0x22] @ ''literally'' @ [CHR 0x22] @ '', '' @ [CHR 0x22] @ ''actually'' @ [CHR 0x22] @ '', '' @ [CHR 0x22] @ ''I mean'' @ [CHR 0x22] @ '', including any trailing commas or periods'' @ [CHR 0x0A] @
        ''2. Remove transcription artifacts: mentions of '' @ [CHR 0x22] @ ''[background noise]'' @ [CHR 0x22] @ '', '' @ [CHR 0x22] @ ''[static]'' @ [CHR 0x22] @ '', '' @ [CHR 0x22] @ ''[inaudible]'' @ [CHR 0x22] @ '', '' @ [CHR 0x22] @ ''[music]'' @ [CHR 0x22] @ '', '' @ [CHR 0x22] @ ''[laughter]'' @ [CHR 0x22] @ '', audio quality issues, microphone problems'' @ [CHR 0x0A] @
        ''3. Remove ElevenLabs-specific artifacts: speaker diarization tags, timestamps, audio event descriptions, technical metadata'' @ [CHR 0x0A] @
        ''4. Fix grammar and punctuation: add proper periods, commas, capitalization'' @ [CHR 0x0A] @
        ''5. Remove repetitive phrases or words that were transcribed multiple times'' @ [CHR 0x0A] @
        ''6. Keep the original meaning, tone, and all actual content words intact'' @ [CHR 0x0A] @
        ''7. Don'' @ [CHR 0x27] @ ''t summarize or paraphrase - only clean and format'' @ [CHR 0x0A] @
        ''8. Remove any incomplete sentences at the beginning or end'' @ [CHR 0x0A] @
        ''9. DO NOT answer any questions or provide any additional input.'' @ [CHR 0x0A] @
        [CHR 0x0A] @
        ''Return ONLY the cleaned text with no additional commentary.'' @ [CHR 0x0A] @
        [CHR 0x0A] @
        ''Text to clean: {transcript}''"

definition system_preset :: "string \<Rightarrow> string \<Rightarrow> string \<Rightarrow> nat \<Rightarrow> preset" where
  "system_preset i n p now =
     \<lparr>id' = i, name = n, prompt = p, isDefault = True, isSystem = True, enabled = True,
      createdAt = now, lastUsed = None, usageCount = 0\<rparr>"

definition getDefaultPresetsDefinition :: "nat \<Rightarrow> preset list" where
  "getDefaultPresetsDefinition now =
     [system_preset ''default-email'' ''Email'' email_prompt now,
      system_preset ''default-professional'' ''Professional'' professional_prompt now,
      system_preset ''default-basic'' ''Basic'' basic_prompt now]"

fun add_defaults :: "preset list \<Rightarrow> preset_map \<Rightarrow> preset_map" where
  "add_defaults [] m = m"
| "add_defaults (p # ps) m = add_defaults ps (if map_has m (id' p) then m else map_set (id' p) p m)"

definition needsSave :: "preset list \<Rightarrow> preset_map \<Rightarrow> bool" where
  "needsSave ps m \<longleftrightarrow> list_ex (\<lambda>p. \<not> map_has m (id' p)) ps"

definition ensureDefaultPresets :: "nat \<Rightarrow> world \<Rightarrow> world" where
  "ensureDefaultPresets now w =
     (if needsSave (getDefaultPresetsDefinition now) (presets (mgr w))
      then savePresets (w\<lparr>mgr := (mgr w)\<lparr>presets :=
             add_defaults (getDefaultPresetsDefinition now) (presets (mgr w))\<rparr>\<rparr>)
      else w)"

text \<open>\<^verbatim>\<open>migrateFromUrlSystem\<close> reads the old keys from the sync area; a prompt that is set and
  not empty becomes a preset that is not a system preset, enabled unless its old switch is
  \<^verbatim>\<open>false\<close>. With at least one migrated preset the map is saved and the old keys are
  removed. A rejection of the sync area is caught and nothing happens. The notice that the
  source then shows on the settings page is not part of the state.\<close>

definition migrated_preset :: "string \<Rightarrow> string \<Rightarrow> string \<Rightarrow> bool option \<Rightarrow> nat \<Rightarrow> preset" where
  "migrated_preset i n p en now =
     \<lparr>id' = i, name = n, prompt = p, isDefault = False, isSystem = False, enabled = (en \<noteq> Some False),
      createdAt = now, lastUsed = None, usageCount = 0\<rparr>"

definition migrate_one :: "string \<Rightarrow> string \<Rightarrow> string option \<Rightarrow> bool option \<Rightarrow> nat \<Rightarrow> preset_map \<Rightarrow> preset_map" where
  "migrate_one i n p en now m =
     (if truthy p then map_set i (migrated_preset i n (the p) en now) m else m)"

definition migrated_map :: "store \<Rightarrow> nat \<Rightarrow> preset_map \<Rightarrow> preset_map" where
  "migrated_map oldData now m =
     migrate_one ''migrated-gmail'' ''Gmail (Migrated)'' (gmailCustomPrompt oldData) (gmailPresetEnabled oldData) now
    (migrate_one ''migrated-linkedin'' ''LinkedIn (Migrated)'' (linkedinCustomPrompt oldData) (linkedinPresetEnabled oldData) now
    (migrate_one ''migrated-twitter-x'' ''Twitter/X (Migrated)'' (twitterCustomPrompt oldData) (twitterPresetEnabled oldData) now
       m))"

definition migrationCount :: "store \<Rightarrow> nat" where
  "migrationCount oldData =
     (if truthy (twitterCustomPrompt oldData) then 1 else 0) +
     (if truthy (linkedinCustomPrompt oldData) then 1 else 0) +
     (if truthy (gmailCustomPrompt oldData) then 1 else 0)"

definition remove_old_keys :: "store \<Rightarrow> store" where
  "remove_old_keys s =
     s\<lparr>enableUrlEnhancement := None, twitterCustomPrompt := None, linkedinCustomPrompt := None,
       gmailCustomPrompt := None, twitterPresetEnabled := None, linkedinPresetEnabled := None,
       gmailPresetEnabled := None\<rparr>"

definition remove_old :: "world \<Rightarrow> world" where
  "remove_old w = w\<lparr>storage := (storage w)\<lparr>sync := remove_old_keys (sync (storage w))\<rparr>\<rparr>"

definition migrateFromUrlSystem :: "nat \<Rightarrow> world \<Rightarrow> world" where
  "migrateFromUrlSystem now w =
     (if \<not> sync_ok (storage w) then w
      else if migrationCount (sync (storage w)) > 0
      then remove_old (savePresets (w\<lparr>mgr := (mgr w)\<lparr>presets :=
             migrated_map (sync (storage w)) now (presets (mgr w))\<rparr>\<rparr>))
      else w)"

definition set_initialized :: "world \<Rightarrow> world" where
  "set_initialized w = w\<lparr>mgr := (mgr w)\<lparr>initialized := True\<rparr>\<rparr>"

definition init :: "nat \<Rightarrow> world \<Rightarrow> world" where
  "init now w = set_initialized (migrateFromUrlSystem now (ensureDefaultPresets now (loadPresets w)))"

text \<open>\<^verbatim>\<open>getSelectedPreset\<close>: initialize first if that has not happened; no selection is the
  "Off" state; a selected id that is unknown, or whose preset is disabled, gives \<^verbatim>\<open>null\<close>.\<close>

definition ensure_init :: "nat \<Rightarrow> world \<Rightarrow> world" where
  "ensure_init now w = (if initialized (mgr w) then w else init now w)"

definition resolve_selected :: "manager \<Rightarrow> preset option" where
  "resolve_selected m =
     (if \<not> truthy (selectedPresetId m) then None
      else case map_of (presets m) (the (selectedPresetId m)) of
             None \<Rightarrow> None
           | Some p \<Rightarrow> if \<not> enabled p then None else Some p)"

definition getSelectedPreset :: "nat \<Rightarrow> world \<Rightarrow> preset option \<times> world" where
  "getSelectedPreset now w = (resolve_selected (mgr (ensure_init now w)), ensure_init now w)"

text \<open>\<^verbatim>\<open>selectPreset\<close> returns \<^verbatim>\<open>true\<close> or, when something was thrown, \<^verbatim>\<open>false\<close>. The check is
  \<^verbatim>\<open>presetId && !this.presets.has(presetId)\<close>; the selection is assigned before it is
  saved.\<close>

definition selectPreset :: "string option \<Rightarrow> world \<Rightarrow> bool \<times> world" where
  "selectPreset presetId w =
     (if truthy presetId \<and> \<not> map_has (presets (mgr w)) (the presetId) then (False, w)
      else case saveStorage_selected presetId (storage w) of
             None \<Rightarrow> (False, w\<lparr>mgr := (mgr w)\<lparr>selectedPresetId := presetId\<rparr>\<rparr>)
           | Some c \<Rightarrow> (True, w\<lparr>mgr := (mgr w)\<lparr>selectedPresetId := presetId\<rparr>, storage := c\<rparr>))"

text \<open>Decimal digits of \<^verbatim>\<open>Date.now()\<close> inside a template literal. An operation reads the clock
  once: the id and \<^verbatim>\<open>createdAt\<close> of a new preset come from the same reading.\<close>

function show_nat :: "nat \<Rightarrow> string" where
  "show_nat n = (if n < 10 then [''0123456789'' ! n] else show_nat (n div 10) @ [''0123456789'' ! (n mod 10)])"
  by pat_completeness auto
termination
  by (relation "measure (\<lambda>n. n)") auto

definition custom_presets :: "preset_map \<Rightarrow> preset list" where
  "custom_presets m = filter (\<lambda>p. \<not> isSystem p) (map snd m)"

definition new_custom_preset :: "string \<Rightarrow> string \<Rightarrow> nat \<Rightarrow> preset" where
  "new_custom_preset n p now =
     \<lparr>id' = ''custom-'' @ show_nat now, name = trim n, prompt = trim p, isDefault = False,
      isSystem = False, enabled = True, createdAt = now, lastUsed = None, usageCount = 0\<rparr>"

text \<open>\<^verbatim>\<open>createCustomPreset\<close> returns the new preset or throws.\<close>

definition createCustomPreset :: "string \<Rightarrow> string \<Rightarrow> nat \<Rightarrow> world \<Rightarrow> (js_error + preset) \<times> world" where
  "createCustomPreset n p now w =
     (if n = [] \<or> p = [] then (Inl (Error ''Name and prompt are required''), w)
      else if length (custom_presets (presets (mgr w))) \<ge> 2
      then (Inl (Error ''Maximum custom presets reached (2)''), w)
      else (Inr (new_custom_preset n p now),
            savePresets (w\<lparr>mgr := (mgr w)\<lparr>presets :=
              map_set (id' (new_custom_preset n p now)) (new_custom_preset n p now) (presets (mgr w))\<rparr>\<rparr>)))"

definition used :: "nat \<Rightarrow> preset \<Rightarrow> preset" where
  "used now p = p\<lparr>lastUsed := Some now, usageCount := usageCount p + 1\<rparr>"

definition updateUsageStats :: "string \<Rightarrow> nat \<Rightarrow> world \<Rightarrow> world" where
  "updateUsageStats presetId now w =
     (case map_of (presets (mgr w)) presetId of
        None \<Rightarrow> w
      | Some p \<Rightarrow> savePresets (w\<lparr>mgr := (mgr w)\<lparr>presets := map_set presetId (used now p) (presets (mgr w))\<rparr>\<rparr>))"

text \<open>\<^verbatim>\<open>deletePreset\<close> returns \<^verbatim>\<open>true\<close> or throws. When the deleted preset was the selected
  one the selection is cleared and saved; a rejection there is thrown on, behind the
  deletion.\<close>

definition delete_from :: "string \<Rightarrow> world \<Rightarrow> world" where
  "delete_from presetId w = w\<lparr>mgr := (mgr w)\<lparr>presets := map_delete presetId (presets (mgr w))\<rparr>\<rparr>"

definition clear_selection :: "world \<Rightarrow> world" where
  "clear_selection w = w\<lparr>mgr := (mgr w)\<lparr>selectedPresetId := None\<rparr>\<rparr>"

definition deletePreset :: "string \<Rightarrow> world \<Rightarrow> (js_error + bool) \<times> world" where
  "deletePreset presetId w =
     (case map_of (presets (mgr w)) presetId of
        None \<Rightarrow> (Inl (Error ''Preset not found''), w)
      | Some p \<Rightarrow>
          if isSystem p then (Inl (Error ''Cannot delete system preset''), w)
          else if selectedPresetId (mgr w) = Some presetId
          then (case saveStorage_selected None (storage w) of
                  None \<Rightarrow> (Inl storage_error, clear_selection (delete_from presetId w))
                | Some c \<Rightarrow> (Inr True, savePresets ((clear_selection (delete_from presetId w))\<lparr>storage := c\<rparr>)))
          else (Inr True, savePresets (delete_from presetId w)))"

section \<open>The settings page: \<^verbatim>\<open>savePresetChanges\<close>\<close>

text \<open>The settings page edits the object stored under \<^verbatim>\<open>presets\<close> in the sync area. The
  form gives the name, the prompt and the switch; \<^verbatim>\<open>currentEditingPreset\<close> is \<^verbatim>\<open>null\<close> for
  a new preset. Every refusal is an alert and leaves the storage as it is.\<close>

datatype outcome = Alert string | Saved

definition same_name :: "string \<Rightarrow> preset \<Rightarrow> bool" where
  "same_name presetName p \<longleftrightarrow> toLowerCase (name p) = toLowerCase presetName"

definition other_same_name :: "string \<Rightarrow> string \<Rightarrow> preset \<Rightarrow> bool" where
  "other_same_name editing presetName p \<longleftrightarrow> id' p \<noteq> editing \<and> same_name presetName p"

text \<open>A preset made by the settings page has no \<^verbatim>\<open>isDefault\<close> field, which reads as false, and
  its \<^verbatim>\<open>createdAt\<close> is the clock reading written as an ISO string; the model keeps the
  reading.\<close>

definition settings_preset :: "string \<Rightarrow> string \<Rightarrow> string \<Rightarrow> bool \<Rightarrow> nat \<Rightarrow> preset" where
  "settings_preset i n p en now =
     \<lparr>id' = i, name = n, prompt = p, isDefault = False, isSystem = False, enabled = en,
      createdAt = now, lastUsed = None, usageCount = 0\<rparr>"

definition put_presets :: "preset_map \<Rightarrow> chrome_storage \<Rightarrow> outcome \<times> chrome_storage" where
  "put_presets m c = (Saved, c\<lparr>sync := (sync c)\<lparr>presets_key := Some m\<rparr>\<rparr>)"

definition stored_map :: "chrome_storage \<Rightarrow> preset_map" where
  "stored_map c = (case presets_key (sync c) of None \<Rightarrow> [] | Some m \<Rightarrow> m)"

definition create_in_settings :: "string \<Rightarrow> string \<Rightarrow> bool \<Rightarrow> nat \<Rightarrow> string \<Rightarrow> chrome_storage \<Rightarrow> outcome \<times> chrome_storage" where
  "create_in_settings presetName p isEnabled now rnd c =
     (if length (custom_presets (stored_map c)) \<ge> 2
      then (Alert ''Maximum of 2 custom presets allowed. Delete an existing custom preset first.'', c)
      else if list_ex (same_name presetName) (map snd (stored_map c))
      then (Alert ''A preset with this name already exists. Please choose a different name.'', c)
      else put_presets
             (map_set (''custom-'' @ show_nat now @ ''-'' @ rnd)
                (settings_preset (''custom-'' @ show_nat now @ ''-'' @ rnd) presetName p isEnabled now)
                (stored_map c)) c)"

definition edit_in_settings :: "string \<Rightarrow> string \<Rightarrow> string \<Rightarrow> bool \<Rightarrow> chrome_storage \<Rightarrow> outcome \<times> chrome_storage" where
  "edit_in_settings editing presetName p isEnabled c =
     (case map_of (stored_map c) editing of
        None \<Rightarrow> (Alert ''Preset not found.'', c)
      | Some existing \<Rightarrow>
          if isSystem existing
          then put_presets (map_set editing (existing\<lparr>prompt := p, enabled := isEnabled\<rparr>) (stored_map c)) c
          else if presetName \<noteq> name existing \<and> list_ex (other_same_name editing presetName) (map snd (stored_map c))
          then (Alert ''A preset with this name already exists. Please choose a different name.'', c)
          else put_presets
                 (map_set editing (existing\<lparr>name := presetName, prompt := p, enabled := isEnabled\<rparr>) (stored_map c)) c)"

definition savePresetChanges :: "string \<Rightarrow> string \<Rightarrow> bool \<Rightarrow> string option \<Rightarrow> nat \<Rightarrow> string \<Rightarrow> chrome_storage \<Rightarrow> outcome \<times> chrome_storage" where
  "savePresetChanges nameValue promptValue isEnabled currentEditingPreset now rnd c =
     (if trim nameValue = [] then (Alert ''Preset name is required.'', c)
      else if trim promptValue = [] then (Alert ''Enhancement prompt is required.'', c)
      else if length (trim promptValue) > 2000 then (Alert ''Prompt must be 2000 characters or less.'', c)
      else if \<not> sync_ok c then (Alert ''Error saving preset. Please try again.'', c)
      else case currentEditingPreset of
             None \<Rightarrow> create_in_settings (trim nameValue) (trim promptValue) isEnabled now rnd c
           | Some editing \<Rightarrow> edit_in_settings editing (trim nameValue) (trim promptValue) isEnabled c)"

section \<open>EnhancementService\<close>

record enhancement_result =
  e_success :: bool
  isOriginal :: bool
  e_result :: string
  originalText :: string
  fallbackReason :: "string option"
  preset_name :: "string option"
  presetId :: "string option"
  charCount :: nat

definition createFallbackResult :: "string \<Rightarrow> string \<Rightarrow> enhancement_result" where
  "createFallbackResult original reason =
     \<lparr>e_success = False, isOriginal = True, e_result = original, originalText = original,
      fallbackReason = Some reason, preset_name = None, presetId = None, charCount = length original\<rparr>"

text \<open>The collaborators: the credential store gives the API key (the empty string when there
  is none, or when reading it fails); the call of the language model gives the enhanced text
  or throws an error with a message; the clock gives \<^verbatim>\<open>Date.now()\<close>.\<close>

record collaborators =
  apiKey :: string
  callOpenAI :: "string \<Rightarrow> string \<Rightarrow> js_error + string"
  clock :: nat

record service =
  isProcessing :: bool
  presetManager :: world

definition message :: "js_error \<Rightarrow> string" where
  "message e = (case e of Error m \<Rightarrow> m)"

definition enhanced :: "preset \<Rightarrow> string \<Rightarrow> string \<Rightarrow> enhancement_result" where
  "enhanced p rawTranscript enhancedText =
     \<lparr>e_success = True, isOriginal = False, e_result = enhancedText, originalText = rawTranscript,
      fallbackReason = None, preset_name = Some (name p), presetId = Some (id' p),
      charCount = length enhancedText\<rparr>"

text \<open>Step 1: the preset with the given id, or the selected one.\<close>

definition find_preset :: "string option \<Rightarrow> nat \<Rightarrow> world \<Rightarrow> preset option \<times> world" where
  "find_preset pid now wld =
     (if truthy pid then (map_of (presets (mgr wld)) (the pid), wld) else getSelectedPreset now wld)"

text \<open>\<^verbatim>\<open>if (rawTranscript.length > 4000) rawTranscript = rawTranscript.substring(0, 4000) + '...'\<close>:
  the parameter itself is assigned, and every later step reads it.\<close>

definition trimmed_for_api :: "string \<Rightarrow> string" where
  "trimmed_for_api rawTranscript =
     (if length rawTranscript > 4000 then take 4000 rawTranscript @ ''...'' else rawTranscript)"

definition prompt_variables :: "string \<Rightarrow> js_object" where
  "prompt_variables rawTranscript =
     [(''transcript'', JString rawTranscript), (''raw_transcript'', JString rawTranscript)]"

text \<open>Steps 3 to 6 on the transcript after the length check; the result and the world.\<close>

definition call_model :: "collaborators \<Rightarrow> preset \<Rightarrow> string \<Rightarrow> world \<Rightarrow> enhancement_result \<times> world" where
  "call_model env p rawTranscript wld =
     (case callOpenAI env (result (render (prompt p) (prompt_variables rawTranscript))) (apiKey env) of
        Inl e \<Rightarrow> (createFallbackResult rawTranscript (message e), wld)
      | Inr enhancedText \<Rightarrow> (enhanced p rawTranscript enhancedText, updateUsageStats (id' p) (clock env) wld))"

definition enhance_with :: "collaborators \<Rightarrow> preset \<Rightarrow> string \<Rightarrow> world \<Rightarrow> enhancement_result \<times> world" where
  "enhance_with env p rawTranscript wld =
     (if apiKey env = [] then (createFallbackResult rawTranscript ''no API key'', wld)
      else if \<not> success (render (prompt p) (prompt_variables rawTranscript))
      then (createFallbackResult rawTranscript ''template error'', wld)
      else call_model env p rawTranscript wld)"

definition enhance_checked :: "collaborators \<Rightarrow> preset option \<Rightarrow> string \<Rightarrow> world \<Rightarrow> enhancement_result \<times> world" where
  "enhance_checked env found rawTranscript wld =
     (case found of
        None \<Rightarrow> (createFallbackResult rawTranscript ''no preset selected'', wld)
      | Some p \<Rightarrow>
          if rawTranscript = [] \<or> length (trim rawTranscript) = 0
          then (createFallbackResult rawTranscript ''empty transcript'', wld)
          else enhance_with env p (trimmed_for_api rawTranscript) wld)"

definition finish :: "enhancement_result \<times> world \<Rightarrow> enhancement_result \<times> service" where
  "finish r = (fst r, \<lparr>isProcessing = False, presetManager = snd r\<rparr>)"

text \<open>\<^verbatim>\<open>enhanceTranscript\<close>: a call while another one is in flight returns at once and leaves
  the flag set; every other path clears the flag in \<^verbatim>\<open>finally\<close>.\<close>

definition enhanceTranscript :: "collaborators \<Rightarrow> string \<Rightarrow> string option \<Rightarrow> service \<Rightarrow> enhancement_result \<times> service" where
  "enhanceTranscript env rawTranscript pid s =
     (if isProcessing s then (createFallbackResult rawTranscript ''already processing'', s)
      else finish (enhance_checked env (fst (find_preset pid (clock env) (presetManager s))) rawTranscript
                     (snd (find_preset pid (clock env) (presetManager s)))))"

section \<open>Whitespace tokens, after the specification\<close>

text \<open>The specification counts the words of a text as its whitespace tokens. This definition
  follows these words and not the source: the tokens of a text are its maximal runs of code
  units that are not white space. It is compared with \<^verbatim>\<open>countWords\<close> below.\<close>

function ws_tokens :: "string \<Rightarrow> string list" where
  "ws_tokens s =
     (case dropWhile is_ws s of
        [] \<Rightarrow> []
      | c # cs \<Rightarrow> (c # takeWhile (\<lambda>d. \<not> is_ws d) cs) # ws_tokens (dropWhile (\<lambda>d. \<not> is_ws d) cs))"
  by pat_completeness auto
termination
proof (relation "measure length", goal_cases)
  case 1
  show ?case by simp
next
  case (2 s c cs)
  have "length (dropWhile (\<lambda>d. \<not> is_ws d) cs) \<le> length cs" by (rule length_dropWhile_le)
  moreover have "length (dropWhile is_ws s) \<le> length s" by (rule length_dropWhile_le)
  ultimately show ?case using 2 by simp
qed

section \<open>Example states\<close>

definition empty_store :: store where
  "empty_store = \<lparr>presets_key = None, selectedPresetId_key = None, enableUrlEnhancement = None,
     twitterCustomPrompt = None, linkedinCustomPrompt = None, gmailCustomPrompt = None,
     twitterPresetEnabled = None, linkedinPresetEnabled = None, gmailPresetEnabled = None\<rparr>"

text \<open>A manager that is initialized and holds one system preset and one disabled custom
  preset.\<close>

definition demo_preset :: "string \<Rightarrow> bool \<Rightarrow> bool \<Rightarrow> preset" where
  "demo_preset i sys en =
     \<lparr>id' = i, name = i, prompt = ''Fix: {transcript}'', isDefault = sys, isSystem = sys, enabled = en,
      createdAt = 1, lastUsed = None, usageCount = 0\<rparr>"

definition demo_world :: "string option \<Rightarrow> world" where
  "demo_world sel =
     \<lparr>mgr = \<lparr>presets = [(''sys'', demo_preset ''sys'' True True), (''off'', demo_preset ''off'' False False)],
             selectedPresetId = sel, initialized = True\<rparr>,
      storage = \<lparr>sync = empty_store, local = empty_store, sync_ok = True, local_ok = True\<rparr>\<rparr>"

text \<open>A manager fresh from its constructor on an empty storage, and one on a storage that
  still holds the three custom prompts of the old per-site system.\<close>

definition fresh_world :: world where
  "fresh_world =
     \<lparr>mgr = new_manager,
      storage = \<lparr>sync = empty_store, local = empty_store, sync_ok = True, local_ok = True\<rparr>\<rparr>"

definition legacy_world :: world where
  "legacy_world =
     \<lparr>mgr = new_manager,
      storage = \<lparr>sync = empty_store\<lparr>twitterCustomPrompt := Some ''Make it a tweet: {raw_transcript}'',
                                      linkedinCustomPrompt := Some ''Make it a post: {raw_transcript}'',
                                      gmailCustomPrompt := Some ''Make it a mail: {raw_transcript}''\<rparr>,
                 local = empty_store, sync_ok = True, local_ok = True\<rparr>\<rparr>"

text \<open>The initialized manager after \<^verbatim>\<open>createCustomPreset('email', ...)\<close>.\<close>

definition with_email :: world where
  "with_email = snd (createCustomPreset ''email'' ''Rewrite as an email: {transcript}'' 7 (init 5 fresh_world))"

text \<open>Collaborators without an API key, and a service that is idle.\<close>

definition no_key_env :: collaborators where
  "no_key_env = \<lparr>apiKey = [], callOpenAI = (\<lambda>p k. Inl (Error ''Request timeout'')), clock = 9\<rparr>"

definition idle_service :: service where
  "idle_service = \<lparr>isProcessing = False, presetManager = demo_world None\<rparr>"


section \<open>The selected preset\<close>

text \<open>
  Claim C9. In every state of the manager and its storage, \<^verbatim>\<open>getSelectedPreset\<close> returns
  either nothing ("Off") or a preset whose \<^verbatim>\<open>enabled\<close> flag is set, also when the id of a
  disabled preset is stored as \<^verbatim>\<open>selectedPresetId\<close>.
\<close>

theorem C9_selected_preset_is_enabled:
  "fst (getSelectedPreset now wld) = Some p \<Longrightarrow> enabled p"
  by (auto simp: getSelectedPreset_def resolve_selected_def split: if_splits option.splits)

text \<open>With the enabled preset selected it is returned; with the disabled one selected the
  answer is "Off".\<close>

theorem C9_selected_preset_is_enabled_witness:
  "fst (getSelectedPreset 0 (demo_world (Some ''sys''))) = Some (demo_preset ''sys'' True True)
   \<and> enabled (demo_preset ''sys'' True True)
   \<and> fst (getSelectedPreset 0 (demo_world (Some ''off''))) = None"
proof -
  have a: "fst (getSelectedPreset 0 (demo_world (Some ''sys''))) = Some (demo_preset ''sys'' True True)"
    by (simp add: getSelectedPreset_def resolve_selected_def ensure_init_def demo_world_def truthy_def
        demo_preset_def)
  have b: "fst (getSelectedPreset 0 (demo_world (Some ''off''))) = None"
    by (simp add: getSelectedPreset_def resolve_selected_def ensure_init_def demo_world_def truthy_def
        demo_preset_def)
  from C9_selected_preset_is_enabled [OF a] a b show ?thesis by blast
qed

section \<open>Failing mutations\<close>

text \<open>
  The empty string is an id that is not \<^verbatim>\<open>null\<close> and names no preset, yet
  \<^verbatim>\<open>selectPreset('')\<close> succeeds and replaces the selection: the guard of the source tests the
  truth value of the id, and the empty string is falsy.
\<close>

theorem C10_empty_id_counterexample:
  "Some [] \<noteq> (None :: string option)
   \<and> \<not> map_has (presets (mgr (demo_world (Some ''sys'')))) []
   \<and> selectPreset (Some []) (demo_world (Some ''sys'')) \<noteq> (False, demo_world (Some ''sys''))"
  by (simp add: selectPreset_def truthy_def map_has_def demo_world_def saveStorage_selected_def)

text \<open>
  Claim C10, amended. In every state, \<^verbatim>\<open>deletePreset\<close> with the id of a system preset or
  with an id that is not in the collection throws, and \<^verbatim>\<open>selectPreset\<close> with a non-empty id
  that is not in the collection returns \<^verbatim>\<open>false\<close>; in each case the collection, the selection
  and the storage are what they were before the call.
\<close>

theorem C10_failing_mutations_change_nothing:
  "((case map_of (presets (mgr wld)) pid of None \<Rightarrow> True | Some p \<Rightarrow> isSystem p)
      \<longrightarrow> (\<exists>e. deletePreset pid wld = (Inl e, wld)))
   \<and> (sid \<noteq> [] \<and> \<not> map_has (presets (mgr wld)) sid \<longrightarrow> selectPreset (Some sid) wld = (False, wld))"
  by (auto simp: deletePreset_def selectPreset_def truthy_def split: option.splits)

theorem C10_failing_mutations_change_nothing_witness:
  "(\<exists>e. deletePreset ''sys'' (demo_world (Some ''sys'')) = (Inl e, demo_world (Some ''sys'')))
   \<and> (\<exists>e. deletePreset ''gone'' (demo_world (Some ''sys'')) = (Inl e, demo_world (Some ''sys'')))
   \<and> selectPreset (Some ''gone'') (demo_world (Some ''sys'')) = (False, demo_world (Some ''sys''))"
proof -
  have a: "case map_of (presets (mgr (demo_world (Some ''sys'')))) ''sys'' of None \<Rightarrow> True | Some p \<Rightarrow> isSystem p"
    by (simp add: demo_world_def demo_preset_def)
  have b: "case map_of (presets (mgr (demo_world (Some ''sys'')))) ''gone'' of None \<Rightarrow> True | Some p \<Rightarrow> isSystem p"
    by (simp add: demo_world_def)
  have c: "''gone'' \<noteq> [] \<and> \<not> map_has (presets (mgr (demo_world (Some ''sys'')))) ''gone''"
    by (simp add: demo_world_def map_has_def)
  from C10_failing_mutations_change_nothing [of "demo_world (Some ''sys'')" "''sys''" "''gone''"]
       C10_failing_mutations_change_nothing [of "demo_world (Some ''sys'')" "''gone''" "''gone''"] a b c
  show ?thesis by blast
qed

section \<open>Names of presets\<close>

text \<open>The settings page refuses a new preset whose name differs from the name of a stored
  preset in case only, and leaves the storage as it is.\<close>

lemma settings_refuses_duplicate_name:
  assumes "list_ex (same_name (trim nameValue)) (map snd (stored_map c))"
  shows "\<exists>msg. savePresetChanges nameValue promptValue isEnabled None now rnd c = (Alert msg, c)"
  using assms by (simp add: savePresetChanges_def create_in_settings_def)

text \<open>
  Claim C2. \<^verbatim>\<open>createCustomPreset\<close> is claimed to fail when the name collides, case ignored,
  with the name of an existing preset. The method of the manager has no such check: with the
  system preset "Email" and a custom preset "email" in the collection, creating "Email"
  returns the new preset and the collection then holds the three names.
\<close>

theorem C2_duplicate_name_is_accepted:
  "map (name \<circ> snd) (presets (mgr with_email)) = [''Email'', ''Professional'', ''Basic'', ''email'']
   \<and> fst (createCustomPreset ''Email'' ''Rewrite it: {transcript}'' 8 with_email)
       = Inr (new_custom_preset ''Email'' ''Rewrite it: {transcript}'' 8)
   \<and> map (name \<circ> snd) (presets (mgr (snd (createCustomPreset ''Email'' ''Rewrite it: {transcript}'' 8 with_email))))
       = [''Email'', ''Professional'', ''Basic'', ''email'', ''Email'']"
  by code_simp

section \<open>The limit on custom presets\<close>

lemma custom_presets_map_set:
  "length (custom_presets (map_set k v m)) \<le> Suc (length (custom_presets m))"
  by (induction m) (auto simp: custom_presets_def)

lemma custom_presets_map_delete:
  "length (custom_presets (map_delete k m)) \<le> length (custom_presets m)"
  by (induction m) (auto simp: custom_presets_def)

lemma savePresets_mgr [simp]: "mgr (savePresets wld) = mgr wld"
  by (simp add: savePresets_def split: option.splits)

text \<open>Creating and deleting keep a collection within the limit, and the limit error is thrown
  exactly when name and prompt are given and two or more presets are not system presets.\<close>

lemma create_keeps_limit:
  "length (custom_presets (presets (mgr wld))) \<le> 2 \<Longrightarrow>
   length (custom_presets (presets (mgr (snd (createCustomPreset n p now wld))))) \<le> 2"
  using custom_presets_map_set [of "''custom-'' @ show_nat now" "new_custom_preset n p now" "presets (mgr wld)"]
  by (auto simp: createCustomPreset_def new_custom_preset_def)

lemma delete_keeps_limit:
  "length (custom_presets (presets (mgr wld))) \<le> 2 \<Longrightarrow>
   length (custom_presets (presets (mgr (snd (deletePreset pid wld))))) \<le> 2"
  using custom_presets_map_delete [of pid "presets (mgr wld)"]
  by (auto simp: deletePreset_def delete_from_def clear_selection_def split: option.splits)

lemma create_limit_error:
  "fst (createCustomPreset n p now wld) = Inl (Error ''Maximum custom presets reached (2)'')
   \<longleftrightarrow> n \<noteq> [] \<and> p \<noteq> [] \<and> length (custom_presets (presets (mgr wld))) \<ge> 2"
  by (simp add: createCustomPreset_def)

text \<open>
  Claim C3. At most two presets that are not system presets are claimed to exist in every
  reachable state. The migration from the old per-site system sets its presets without the
  check that \<^verbatim>\<open>createCustomPreset\<close> makes: a manager initialized on a storage with the three
  old prompts holds three presets that are not system presets.
\<close>

theorem C3_migration_exceeds_limit:
  "map fst (presets (mgr (init 5 legacy_world)))
     = [''default-email'', ''default-professional'', ''default-basic'',
        ''migrated-twitter-x'', ''migrated-linkedin'', ''migrated-gmail'']
   \<and> length (custom_presets (presets (mgr (init 5 legacy_world)))) = 3"
  by code_simp

section \<open>Missing variables of a template\<close>

text \<open>A name that the variables object does not own and that \<^verbatim>\<open>Object.prototype\<close> does not
  answer for is missing, and so is a name bound to \<^verbatim>\<open>undefined\<close>, \<^verbatim>\<open>null\<close> or the empty
  string.\<close>

lemma absent_is_missing:
  "map_of variables v = None \<Longrightarrow> v \<notin> set Object_prototype_names \<Longrightarrow> is_missing variables v"
  by (simp add: is_missing_def get_property_def)

lemma empty_is_missing:
  "map_of variables v = Some x \<Longrightarrow> x = JUndefined \<or> x = JNull \<or> x = JString [] \<Longrightarrow> is_missing variables v"
  by (auto simp: is_missing_def get_property_def)

text \<open>When \<^verbatim>\<open>findMissingVariables\<close> finds a name, \<^verbatim>\<open>render\<close> fails with all the names found,
  and the result is empty: nothing is substituted.\<close>

lemma render_reports_missing:
  assumes "template \<noteq> []" and "v \<in> set (extractTemplateVariables template)" and "is_missing variables v"
  shows "render template variables =
     \<lparr>success = False, result = [],
      missingVars = filter (is_missing variables) (extractTemplateVariables template),
      error = Some (''Missing required variables: '' @
                join '', '' (filter (is_missing variables) (extractTemplateVariables template)))\<rparr>"
proof -
  have "filter (is_missing variables) (extractTemplateVariables template) \<noteq> []"
    using assms(2,3) by (auto simp: filter_empty_conv)
  then show ?thesis
    using assms(1) by (simp add: render_def findMissingVariables_def)
qed

lemma render_missing_example:
  "render ''{a}'' [] =
     \<lparr>success = False, result = [], missingVars = [''a''], error = Some ''Missing required variables: a''\<rparr>"
  by code_simp

text \<open>
  Claim C5. \<^verbatim>\<open>render\<close> is claimed to fail whenever a placeholder of the template is absent
  from the variables. The test of the source reads \<^verbatim>\<open>providedVars[varName]\<close>, which for a
  name such as \<^verbatim>\<open>constructor\<close> finds the property inherited from \<^verbatim>\<open>Object.prototype\<close>: the
  placeholder \<^verbatim>\<open>{constructor}\<close> is absent from the empty variables object, and \<^verbatim>\<open>render\<close>
  succeeds with the placeholder left in the result.
\<close>

theorem C5_inherited_name_is_not_missing:
  "extractTemplateVariables ''{constructor}'' = [''constructor'']
   \<and> map_of ([] :: js_object) ''constructor'' = None
   \<and> render ''{constructor}'' [] =
       \<lparr>success = True, result = ''{constructor}'', missingVars = [], error = None\<rparr>"
  by code_simp

section \<open>Fallback of the enhancement\<close>

lemma trimmed_for_api_short: "length t \<le> 4000 \<Longrightarrow> trimmed_for_api t = t"
  by (simp add: trimmed_for_api_def)

text \<open>A result that is not a success carries the transcript as it was passed, or as it was
  cut for the API; for a transcript of at most 4000 code units the two are the same.\<close>

lemma failed_enhancement_result:
  assumes "\<not> e_success (fst (enhanceTranscript env t pid s))"
  shows "e_result (fst (enhanceTranscript env t pid s)) = t
       \<or> e_result (fst (enhanceTranscript env t pid s)) = trimmed_for_api t"
  using assms
  by (auto simp: enhanceTranscript_def finish_def enhance_checked_def enhance_with_def call_model_def
      createFallbackResult_def enhanced_def split: option.splits sum.splits if_splits)

lemma failed_enhancement_keeps_short_transcript:
  assumes "length t \<le> 4000" and "\<not> e_success (fst (enhanceTranscript env t pid s))"
  shows "e_result (fst (enhanceTranscript env t pid s)) = t"
  using failed_enhancement_result [OF assms(2)] trimmed_for_api_short [OF assms(1)] by auto

text \<open>Without an API key, with a preset found and a transcript that is not blank, the result
  is the fallback "no API key" on the transcript after the cut.\<close>

lemma no_api_key_fallback:
  assumes "\<not> isProcessing s" and "fst (find_preset pid (clock env) (presetManager s)) = Some p"
    and "t \<noteq> []" and "trim t \<noteq> []" and "apiKey env = []"
  shows "fst (enhanceTranscript env t pid s) = createFallbackResult (trimmed_for_api t) ''no API key''"
  using assms by (simp add: enhanceTranscript_def finish_def enhance_checked_def enhance_with_def)

lemma trim_replicate: "\<not> is_ws c \<Longrightarrow> trim (replicate n c) = replicate n c"
  by (simp add: trim_def)

text \<open>
  Claim C1. Every failure of \<^verbatim>\<open>enhanceTranscript\<close> is claimed to return the original
  transcript unchanged. For a transcript of 4001 code units, a preset given and no API key,
  the fallback "no API key" carries the first 4000 code units and three dots: the length
  check assigns the cut text to the parameter, and the later fallbacks read the parameter.
\<close>

theorem C1_long_transcript_is_cut:
  "fst (enhanceTranscript no_key_env (replicate 4001 CHR ''a'') (Some ''sys'') idle_service)
     = createFallbackResult (replicate 4000 CHR ''a'' @ ''...'') ''no API key''
   \<and> e_result (fst (enhanceTranscript no_key_env (replicate 4001 CHR ''a'') (Some ''sys'') idle_service))
     \<noteq> replicate 4001 CHR ''a''"
proof -
  have nws: "\<not> is_ws CHR ''a''" by (simp add: is_ws_def)
  have cut: "trimmed_for_api (replicate 4001 CHR ''a'') = replicate 4000 CHR ''a'' @ ''...''"
    by (simp add: trimmed_for_api_def)
  have found: "find_preset (Some ''sys'') 9 (demo_world None)
      = (Some (demo_preset ''sys'' True True), demo_world None)"
    by (simp add: find_preset_def truthy_def demo_world_def)
  have r: "fst (enhanceTranscript no_key_env (replicate 4001 CHR ''a'') (Some ''sys'') idle_service)
     = createFallbackResult (replicate 4000 CHR ''a'' @ ''...'') ''no API key''"
    by (simp add: enhanceTranscript_def found finish_def enhance_checked_def enhance_with_def cut
        trim_replicate [OF nws] idle_service_def no_key_env_def)
  have "length (replicate 4000 CHR ''a'' @ ''...'') \<noteq> length (replicate 4001 CHR ''a'')" by simp
  then have "replicate 4000 CHR ''a'' @ ''...'' \<noteq> replicate 4001 CHR ''a''" by metis
  with r show ?thesis by (simp add: createFallbackResult_def)
qed

section \<open>The end of a cleaned transcription\<close>

lemma list_ex_CChar: "list_ex (in_cset c) (map CChar cs) \<longleftrightarrow> c \<in> set cs"
  by (induction cs) auto

text \<open>\<^verbatim>\<open>/[.!?]$/\<close> matches at a position exactly when one code unit is left and it is one of
  the marks; so it matches somewhere exactly when the text ends in one of the marks.\<close>

lemma match_at_closing_mark:
  "match_at False (RSeq (chars cs) REol) bef rst \<noteq> None \<longleftrightarrow> (\<exists>c. rst = [c] \<and> c \<in> set cs)"
proof (cases rst)
  case Nil
  then show ?thesis by (simp add: match_at_def chars_def)
next
  case (Cons c r)
  then show ?thesis
    by (cases r) (simp_all add: match_at_def chars_def cset_match_def list_ex_CChar advance_def)
qed

lemma search_closing_mark:
  "re_search False (RSeq (chars cs) REol) bef s \<noteq> None \<longleftrightarrow> s \<noteq> [] \<and> last s \<in> set cs"
proof (induction s arbitrary: bef)
  case Nil
  have "match_at False (RSeq (chars cs) REol) bef [] = None"
    using match_at_closing_mark [of cs bef "[]"] by simp
  then show ?case by simp
next
  case (Cons c s)
  show ?case
  proof (cases "match_at False (RSeq (chars cs) REol) bef (c # s)")
    case None
    then have "\<not> (s = [] \<and> c \<in> set cs)"
      using match_at_closing_mark [of cs bef "c # s"] by auto
    with None Cons.IH [of "c # bef"] show ?thesis by auto
  next
    case (Some st)
    then have "s = [] \<and> c \<in> set cs"
      using match_at_closing_mark [of cs bef "c # s"] by auto
    with Some show ?thesis by simp
  qed
qed

lemma ends_sentence_iff: "ends_sentence s \<longleftrightarrow> s \<noteq> [] \<and> last s \<in> set ''.!?''"
  unfolding ends_sentence_def re_test_def by (rule search_closing_mark)

text \<open>A text whose last code unit is not white space is not blank.\<close>

lemma trim_not_empty:
  assumes "s \<noteq> []" and "\<not> is_ws (last s)"
  shows "trim s \<noteq> []"
proof -
  have "last s \<in> set s" using assms(1) by simp
  then have ne: "dropWhile is_ws s \<noteq> []"
    using assms(2) by auto
  have "s = takeWhile is_ws s @ dropWhile is_ws s" by simp
  then have "last s = last (dropWhile is_ws s)"
    using ne by (metis last_appendR)
  then have "\<not> is_ws (hd (rev (dropWhile is_ws s)))"
    using assms(2) ne by (simp add: hd_rev)
  then have "dropWhile is_ws (rev (dropWhile is_ws s)) \<noteq> []"
    using ne by (cases "rev (dropWhile is_ws s)") auto
  then show ?thesis by (simp add: trim_def)
qed

lemma closing_mark_not_ws: "c \<in> set ''.!?'' \<Longrightarrow> \<not> is_ws c"
  by (auto simp: is_ws_def)

lemma phase11_ends: "c \<noteq> [] \<Longrightarrow> phase11 c \<noteq> [] \<and> last (phase11 c) \<in> set ''.!?''"
  by (auto simp: phase11_def ends_sentence_iff)

text \<open>
  The input "um" is not empty and alphabetic. The filler phase replaces it by one
  space, the trim leaves nothing, no period is appended to the empty text, and the final
  check returns the input, which ends in the letter m.
\<close>

theorem C4_um_counterexample:
  "cleanTranscription ''um'' = ''um'' \<and> last (cleanTranscription ''um'') \<notin> set ''.!?''"
  by code_simp

text \<open>
  Claim C4, amended. For every input that is not empty: when the cleanup phases give a text
  that is not empty, \<^verbatim>\<open>clean\<close> returns that text, with a period appended unless it ends in
  \<^verbatim>\<open>.\<close>, \<^verbatim>\<open>!\<close> or \<^verbatim>\<open>?\<close> already, and so the result ends in one of the three marks; when
  the phases give the empty text, \<^verbatim>\<open>clean\<close> returns the input as it is.
\<close>

theorem C4_clean_ends_sentence_or_returns_input:
  assumes "x \<noteq> []"
  shows "(cleanup_phases x \<noteq> [] \<longrightarrow>
            cleanTranscription x =
              (if last (cleanup_phases x) \<in> set ''.!?'' then cleanup_phases x else cleanup_phases x @ ''.'')
            \<and> last (cleanTranscription x) \<in> set ''.!?'')
       \<and> (cleanup_phases x = [] \<longrightarrow> cleanTranscription x = x)"
proof (cases "cleanup_phases x = []")
  case True
  then show ?thesis using assms by (simp add: cleanTranscription_def phase11_def final_check_def)
next
  case False
  from phase11_ends [OF False] have e: "phase11 (cleanup_phases x) \<noteq> []"
    and l: "last (phase11 (cleanup_phases x)) \<in> set ''.!?''" by auto
  from trim_not_empty [OF e closing_mark_not_ws [OF l]]
  have "cleanTranscription x = phase11 (cleanup_phases x)"
    using assms e by (simp add: cleanTranscription_def final_check_def)
  moreover have "phase11 (cleanup_phases x) =
      (if last (cleanup_phases x) \<in> set ''.!?'' then cleanup_phases x else cleanup_phases x @ ''.'')"
    using False by (simp add: phase11_def ends_sentence_iff)
  ultimately show ?thesis using False l by simp
qed

theorem C4_clean_ends_sentence_or_returns_input_witness:
  "cleanTranscription ''hi there'' = ''hi there.'' \<and> last (cleanTranscription ''hi there'') \<in> set ''.!?''
   \<and> cleanTranscription ''um'' = ''um''"
proof -
  have a: "cleanup_phases ''hi there'' = ''hi there''" by code_simp
  have b: "cleanup_phases ''um'' = []" by code_simp
  have c: "''hi there'' \<noteq> []" and d: "''um'' \<noteq> []" by simp_all
  have e: "last ''hi there'' \<notin> set ''.!?''" by simp
  from C4_clean_ends_sentence_or_returns_input [OF c] C4_clean_ends_sentence_or_returns_input [OF d] a b e
  show ?thesis by simp
qed

text \<open>The scenario of the specification.\<close>

lemma clean_scenario:
  "cleanTranscription ''I went to the the store yesterday, um, to buy milk''
     = ''I went to the store yesterday, to buy milk.''"
  by code_simp

section \<open>Removing the activation phrase\<close>

lemma extract_without_phrase:
  "\<not> startsWith (trim (toLowerCase t)) (trim (toLowerCase p)) \<Longrightarrow> extractCleanContent t p = t"
  by (simp add: extractCleanContent_def)

lemma extract_example:
  "extractCleanContent ''Work note, finish the report.'' ''Work note,'' = ''finish the report.''"
  by code_simp

text \<open>For a transcript without white space in front and a phrase without white space around
  it, the cut is behind the phrase: the text that is dropped is the phrase up to case, and
  the rest loses the punctuation and then the white space in front of it and is trimmed.\<close>

lemma is_ws_code: "is_ws c \<longleftrightarrow> (of_char c :: int) \<in> {9, 10, 11, 12, 13, 32, 160}"
proof -
  have e: "\<And>d. (c = d) = ((of_char c :: int) = of_char d)" by simp
  have "is_ws c \<longleftrightarrow> (of_char c :: int) = of_char (CHR 0x09) \<or> (of_char c :: int) = of_char (CHR 0x0A)
      \<or> (of_char c :: int) = of_char (CHR 0x0B) \<or> (of_char c :: int) = of_char (CHR 0x0C)
      \<or> (of_char c :: int) = of_char (CHR 0x0D) \<or> (of_char c :: int) = of_char (CHR '' '')
      \<or> (of_char c :: int) = of_char (CHR 0xA0)"
    unfolding is_ws_def by (simp only: e [symmetric] list.set insert_iff empty_iff simp_thms)
  then show ?thesis by simp
qed

lemma is_ws_lower_char: "is_ws (lower_char c) \<longleftrightarrow> is_ws c"
proof (cases "lower_char c = c")
  case True
  then show ?thesis by simp
next
  case False
  then have l: "lower_char c = char_of (of_char c + (32::int))"
    and r: "(65 \<le> (of_char c :: int) \<and> (of_char c :: int) \<le> 90) \<or> (192 \<le> (of_char c :: int) \<and> (of_char c :: int) \<le> 222)"
    by (auto simp: lower_char_def in_range_def split: if_splits)
  have "(of_char (lower_char c) :: int) = (of_char c + 32) mod 256"
    by (simp add: l)
  also have "\<dots> = of_char c + 32" using r by auto
  finally have "(of_char (lower_char c) :: int) = of_char c + 32" .
  with r show ?thesis by (auto simp: is_ws_code)
qed

lemma startsWith_take: "startsWith a b \<Longrightarrow> take (length b) a = b"
  by (induction a b rule: startsWith.induct) auto

lemma startsWith_append: "startsWith a b \<Longrightarrow> startsWith (a @ c) b"
  by (induction a b rule: startsWith.induct) auto

lemma trim_id:
  assumes "s \<noteq> []" and "\<not> is_ws (hd s)" and "\<not> is_ws (last s)"
  shows "trim s = s"
proof -
  have a: "dropWhile is_ws s = s" using assms(1,2) by (cases s) auto
  have "rev s \<noteq> []" and "\<not> is_ws (hd (rev s))" using assms(1,3) by (simp_all add: hd_rev)
  then have "dropWhile is_ws (rev s) = rev s" by (cases "rev s") auto
  with a show ?thesis by (simp add: trim_def)
qed

lemma trim_prefix:
  assumes "s \<noteq> []" and "\<not> is_ws (hd s)"
  shows "s = trim s @ rev (takeWhile is_ws (rev s))"
proof -
  have a: "dropWhile is_ws s = s" using assms by (cases s) auto
  have "rev (takeWhile is_ws (rev s) @ dropWhile is_ws (rev s)) = s"
    by (simp only: takeWhile_dropWhile_id rev_rev_ident)
  then have "rev (dropWhile is_ws (rev s)) @ rev (takeWhile is_ws (rev s)) = s"
    by (simp only: rev_append)
  then show ?thesis by (simp add: trim_def a)
qed

lemma extract_cuts_phrase:
  assumes t: "t \<noteq> []" "\<not> is_ws (hd t)"
    and p: "p \<noteq> []" "\<not> is_ws (hd p)" "\<not> is_ws (last p)"
    and s: "startsWith (trim (toLowerCase t)) (trim (toLowerCase p))"
  shows "toLowerCase (take (length p) t) = toLowerCase p
       \<and> extractCleanContent t p
           = trim (dropWhile space_after (dropWhile punct_after (drop (length p) t)))"
proof -
  have lp: "toLowerCase p \<noteq> []" "\<not> is_ws (hd (toLowerCase p))" "\<not> is_ws (last (toLowerCase p))"
    using p by (simp_all add: toLowerCase_def hd_map last_map is_ws_lower_char)
  have lt: "toLowerCase t \<noteq> []" "\<not> is_ws (hd (toLowerCase t))"
    using t by (simp_all add: toLowerCase_def hd_map is_ws_lower_char)
  have "trim (toLowerCase p) = toLowerCase p" using lp by (rule trim_id)
  with s have "startsWith (trim (toLowerCase t)) (toLowerCase p)" by simp
  then have "startsWith (trim (toLowerCase t) @ rev (takeWhile is_ws (rev (toLowerCase t)))) (toLowerCase p)"
    by (rule startsWith_append)
  then have "startsWith (toLowerCase t) (toLowerCase p)"
    using trim_prefix [OF lt] by simp
  then have "take (length (toLowerCase p)) (toLowerCase t) = toLowerCase p"
    by (rule startsWith_take)
  then have "toLowerCase (take (length p) t) = toLowerCase p"
    by (simp add: toLowerCase_def take_map)
  moreover have "extractCleanContent t p
           = trim (dropWhile space_after (dropWhile punct_after (drop (length p) t)))"
    using t(1) p(1) s by (simp add: extractCleanContent_def)
  ultimately show ?thesis by simp
qed

lemma space_after_iff: "space_after c \<longleftrightarrow> is_ws c"
  by (simp add: space_after_def re_test_def match_at_def rx_space_def cset_match_def advance_def)

lemma punct_after_iff: "punct_after c \<longleftrightarrow> c \<in> set (''.,!?;:'' @ [CHR 0x27, CHR 0x22] @ '')]}'')"
  by (simp add: punct_after_def re_test_def match_at_def chars_def cset_match_def advance_def)

text \<open>
  Claim C6. When the trimmed transcript starts with the trimmed phrase, the phrase, the
  punctuation behind it and the white space behind that are claimed to be removed. The
  source compares the trimmed texts but cuts the transcript as passed at the length of the
  phrase as passed: with two spaces in front of the transcript the cut falls inside the
  phrase, and its last letter and the comma stay in the result.
\<close>

theorem C6_leading_space_breaks_cut:
  "startsWith (trim (toLowerCase ''  Work note, finish the report.'')) (trim (toLowerCase ''Work note,''))
   \<and> extractCleanContent ''  Work note, finish the report.'' ''Work note,'' = ''e, finish the report.''"
  by code_simp

section \<open>Short texts in the paragraph formatter\<close>

text \<open>With at most two elements in \<^verbatim>\<open>sentences\<close> the normalized text is returned.\<close>

lemma format_short:
  assumes "t \<noteq> []" and "trim t \<noteq> []" and "length (sentences_of (cleanText t)) \<le> 2"
  shows "formatTextIntoParagraphs t = cleanText t"
  using assms by (simp add: formatTextIntoParagraphs_def format_clean_def)

lemma format_two_plain_sentences:
  "formatTextIntoParagraphs ''Hello world.   How are you?'' = ''Hello world. How are you?''"
  by code_simp

text \<open>
  Claim C7. A text of at most two sentences is claimed to pass with white space normalized
  and no paragraph break. The array \<^verbatim>\<open>sentences\<close> of the source holds the closing marks as
  elements of their own, so a text of two sentences has four elements and goes through the
  paragraph loop: the second sentence below starts with "So", and the result has a
  blank line in front of it.
\<close>

theorem C7_two_sentences_get_a_break:
  "sentences_of (cleanText ''I went home. So it rained.'') = [''I went home'', ''.'', '' So it rained'', ''.'']
   \<and> formatTextIntoParagraphs ''I went home. So it rained.''
       = ''I went home.'' @ [CHR 0x0A, CHR 0x0A] @ ''So it rained.''"
  by code_simp

section \<open>Counting words\<close>

declare ws_tokens.simps [simp del]


lemma ws_tokens_skip: "ws_tokens (dropWhile is_ws s) = ws_tokens s"
  by (subst (1 2) ws_tokens.simps) simp

lemma ws_tokens_ws_Cons: "is_ws c \<Longrightarrow> ws_tokens (c # s) = ws_tokens s"
  using ws_tokens_skip [of "c # s"] ws_tokens_skip [of s] by simp









declare re_split_from.simps [simp del]









section \<open>Session metrics\<close>




text \<open>
  The rate is computed in double arithmetic, and each of the two operations rounds. For 41
  words in 40 seconds the quotient \<^verbatim>\<open>41 / 40\<close> is the double just below 1.025, its product with
  60 is the double just below 61.5, and the rate is 61, where the exact value 61.5 would be
  rounded to 62. The same holds for the speech rate of 41 characters in 40 seconds.
\<close>

lemma quotient_41_40: "d_div (of_count 41) (Fin 40) = Fin (4616189618054758 / 4503599627370496)"
  by code_simp

lemma product_41_40:
  "d_mul (d_div (of_count 41) (Fin 40)) (Fin 60) = Fin (8655355533852671 / 140737488355328)"
  by code_simp

lemma wpm_41_words_40_seconds: "calculateWPM (concat (replicate 41 ''a '')) (Fin 40) = Fin 61"
  by code_simp

lemma speech_rate_41_sounds_40_seconds:
  "calculateSpeechRate (replicate 41 (CHR ''a'')) (Fin 40) = Fin 61"
  by code_simp

lemma exact_41_40: "\<lfloor>(41 / 40 * 60 :: rat) + 1 / 2\<rfloor> = 62"
  by simp



end
